theory Spec2Isabelle
  imports Complex_Main "HOL-Library.Sublist" "HOL-Library.AList"
begin

section \<open>Rate comparison analysis: a model of RCA\_CompetitorAnalysis.py\<close>

text \<open>
  The development embeds the parts of \<^verbatim>\<open>RCA_CompetitorAnalysis.py\<close> that reconcile
  rate records from the local database and the remote API: the adjustment scorer, the
  gap analysis, the two record adapters and their combination, the retrying and
  rate-limited remote client, and the price handling of the two reports.

  Conventions of the model:
  \<^item> Python floats are modelled as exact reals: rounding is not modelled.
  \<^item> A Python value that may be \<^verbatim>\<open>None\<close> is an \<open>option\<close>; Python's truth test of a
    price (\<^verbatim>\<open>if rec.get('walk_in_price')\<close>) is \<open>truthy\<close>: neither \<^verbatim>\<open>None\<close> nor zero.
  \<^item> A \<^verbatim>\<open>datetime.date\<close> on which the code does day arithmetic is modelled by its day
    number (\<^verbatim>\<open>date.toordinal()\<close>), an unbounded integer: Python's calendar ends at
    9999-12-31, and windows that end on that very day are outside the model.
\<close>

subsection \<open>Adjustment scorer\<close>

type_synonym rankings = "string \<rightharpoonup> int"

text \<open>The dictionary \<^verbatim>\<open>weights\<close> of \<^verbatim>\<open>calculate_store_adjustment\<close>, in its iteration order.\<close>

definition weights :: "(string \<times> real) list" where
  "weights =
     [(''Location'', 0.01),
      (''Age'', 0.01),
      (''Accessibility'', 0.005),
      (''VPD'', 0.005),
      (''Visibility & Signage'', 0.005),
      (''Brand'', 0.01),
      (''Quality'', 0.01),
      (''Size'', 0.01)]"

text \<open>\<^verbatim>\<open>store_rankings.get(category, 5)\<close>\<close>

definition get_rank :: "rankings \<Rightarrow> string \<Rightarrow> int" where
  "get_rank r category = (case r category of None \<Rightarrow> 5 | Some rank \<Rightarrow> rank)"

text \<open>The loop \<^verbatim>\<open>for category, weight in weights.items()\<close>, with \<^verbatim>\<open>total_adj\<close> as accumulator.\<close>

fun weights_loop :: "rankings \<Rightarrow> rankings \<Rightarrow> (string \<times> real) list \<Rightarrow> real \<Rightarrow> real" where
  "weights_loop store_rankings subject_rankings [] total_adj = total_adj"
| "weights_loop store_rankings subject_rankings ((category, weight) # rest) total_adj =
     (let comp_rank = get_rank store_rankings category;
          subj_rank = get_rank subject_rankings category;
          delta = real_of_int (comp_rank - subj_rank) * weight
      in weights_loop store_rankings subject_rankings rest (total_adj + delta))"

text \<open>The loop \<^verbatim>\<open>for factor_value in adjustment_factors.values()\<close>.\<close>

fun factors_loop :: "real list \<Rightarrow> real \<Rightarrow> real" where
  "factors_loop [] total_adj = total_adj"
| "factors_loop (factor_value # rest) total_adj = factors_loop rest (total_adj + factor_value)"

text \<open>
  The flat adjustment factors are a dictionary from factor name to value; the model keeps
  its items in insertion order.
\<close>

type_synonym adjustment_factors = "(string \<times> real) list"

definition calculate_store_adjustment ::
  "rankings \<Rightarrow> rankings \<Rightarrow> adjustment_factors \<Rightarrow> real" where
  "calculate_store_adjustment store_rankings subject_rankings adjustment_factors =
     factors_loop (map snd adjustment_factors)
       (weights_loop store_rankings subject_rankings weights 0)"

datatype py_error = IndexError

text \<open>
  The first block of \<^verbatim>\<open>generate_csv2_report\<close>: the subject is the first selected store
  (\<^verbatim>\<open>selected_stores[0]\<close> raises on an empty list); the subject's adjustment is set to
  zero without calling the scorer, every other store gets the scorer's value. A store
  without rankings has the empty ranking dictionary. Stores are given by their ids.
\<close>

definition rankings_of :: "(int \<rightharpoonup> rankings) \<Rightarrow> int \<Rightarrow> rankings" where
  "rankings_of rankings store_id = (case rankings store_id of None \<Rightarrow> Map.empty | Some r \<Rightarrow> r)"

fun adjustments_loop ::
  "int \<Rightarrow> (int \<rightharpoonup> rankings) \<Rightarrow> adjustment_factors \<Rightarrow> int list \<Rightarrow> (int \<rightharpoonup> real) \<Rightarrow> (int \<rightharpoonup> real)" where
  "adjustments_loop subject_store_id rankings factors [] store_adjustments = store_adjustments"
| "adjustments_loop subject_store_id rankings factors (store_id # rest) store_adjustments =
     adjustments_loop subject_store_id rankings factors rest
       (if store_id = subject_store_id then store_adjustments(store_id \<mapsto> 0)
        else store_adjustments(store_id \<mapsto>
               calculate_store_adjustment (rankings_of rankings store_id)
                 (rankings_of rankings subject_store_id) factors))"

definition store_adjustments ::
  "int list \<Rightarrow> (int \<rightharpoonup> rankings) \<Rightarrow> adjustment_factors \<Rightarrow> py_error + (int \<rightharpoonup> real)" where
  "store_adjustments selected_stores rankings factors =
     (case selected_stores of
        [] \<Rightarrow> Inl IndexError
      | subject_store_id # _ \<Rightarrow>
          Inr (adjustments_loop subject_store_id rankings factors selected_stores Map.empty))"

subsection \<open>Gap analysis\<close>

text \<open>
  A \<^verbatim>\<open>date\<close> is modelled by its day number: \<^verbatim>\<open>current += timedelta(days=1)\<close> adds one,
  \<^verbatim>\<open>(d - end).days\<close> is the difference.
\<close>

type_synonym date = int

text \<open>The loop \<^verbatim>\<open>while current <= to_date\<close> of \<^verbatim>\<open>analyze_date_gaps\<close>, which fills \<^verbatim>\<open>all_dates\<close>.\<close>

function all_dates_loop :: "date \<Rightarrow> date \<Rightarrow> date set \<Rightarrow> date set" where
  "all_dates_loop current to_date all_dates =
     (if current \<le> to_date
      then all_dates_loop (current + 1) to_date (insert current all_dates)
      else all_dates)"
  by pat_completeness auto
termination
  by (relation "measure (\<lambda>(current, to_date, all_dates). nat (to_date + 1 - current))") auto

declare all_dates_loop.simps [simp del]

text \<open>
  \<^verbatim>\<open>analyze_date_gaps\<close>: for every store of \<^verbatim>\<open>dates_by_store\<close>, the sorted list of the days of
  the window that are not in the store's set of dates.
\<close>

definition analyze_date_gaps :: "(int \<rightharpoonup> date set) \<Rightarrow> date \<Rightarrow> date \<Rightarrow> (int \<rightharpoonup> date list)" where
  "analyze_date_gaps dates_by_store from_date to_date =
     (let all_dates = all_dates_loop from_date to_date {}
      in (\<lambda>store_id.
            case dates_by_store store_id of
              None \<Rightarrow> None
            | Some store_dates \<Rightarrow> Some (sorted_list_of_set (all_dates - store_dates))))"

text \<open>
  The grouping of consecutive missing dates into ranges in \<^verbatim>\<open>main\<close> (step 10): the loop
  \<^verbatim>\<open>for d in missing_dates[1:]\<close> with the variables \<^verbatim>\<open>start\<close>, \<^verbatim>\<open>end\<close> and \<^verbatim>\<open>ranges\<close>; a store
  with no missing date is skipped and gets no range.
\<close>

fun ranges_loop :: "date \<Rightarrow> date \<Rightarrow> date list \<Rightarrow> (date \<times> date) list \<Rightarrow> (date \<times> date) list" where
  "ranges_loop start end_date [] ranges = ranges @ [(start, end_date)]"
| "ranges_loop start end_date (d # rest) ranges =
     (if d - end_date = 1 then ranges_loop start d rest ranges
      else ranges_loop d d rest (ranges @ [(start, end_date)]))"

definition date_ranges :: "date list \<Rightarrow> (date \<times> date) list" where
  "date_ranges missing_dates =
     (case missing_dates of
        [] \<Rightarrow> []
      | first # rest \<Rightarrow> ranges_loop first first rest [])"

text \<open>The days that a list of inclusive ranges covers, in order.\<close>

definition days_of_ranges :: "(date \<times> date) list \<Rightarrow> date list" where
  "days_of_ranges ranges = concat (map (\<lambda>(range_start, range_end). [range_start..range_end]) ranges)"

text \<open>
  Consecutive ranges are \<open>separated\<close> when each starts more than one day after the end of
  the one before: they do not overlap, and no two of them could be joined into one run.
\<close>

fun separated :: "(date \<times> date) list \<Rightarrow> bool" where
  "separated [] = True"
| "separated [r] = True"
| "separated ((a, b) # (c, d) # rest) = (b + 1 < c \<and> separated ((c, d) # rest))"

text \<open>
  The days at which the specification starts a run: the first missing day, and every
  missing day that is more than one day after the missing day before it.
\<close>

definition run_starts :: "date list \<Rightarrow> date list" where
  "run_starts missing_dates =
     (case missing_dates of
        [] \<Rightarrow> []
      | first # rest \<Rightarrow>
          first # map snd (filter (\<lambda>(previous, next_day). next_day - previous > 1) (zip missing_dates rest)))"

subsection \<open>Remote client\<close>

text \<open>
  The module globals \<^verbatim>\<open>_RATE_LIMIT_PER_HOUR\<close>, \<^verbatim>\<open>_rate_window_start\<close> and \<^verbatim>\<open>_rate_call_count\<close>,
  the client's cached \<^verbatim>\<open>_token\<close>, and a simulated clock \<open>now\<close> for \<^verbatim>\<open>time.time()\<close> make up
  the state. Three fields only observe the run: \<open>call_log\<close> records the time at which each
  POST to \<^verbatim>\<open>historicaldata\<close> starts, \<open>auth_log\<close> counts the POSTs to \<^verbatim>\<open>authtoken\<close>, and
  \<open>events\<close> records, in order, every answer that a POST to \<^verbatim>\<open>historicaldata\<close> receives and
  every reset of the rate window.
  The clock advances by \<^verbatim>\<open>time.sleep\<close> and by the latency of a \<^verbatim>\<open>historicaldata\<close> request.
\<close>

datatype event = Answered | WindowReset

definition RATE_LIMIT_PER_HOUR :: nat where
  "RATE_LIMIT_PER_HOUR = 3000"

record client_state =
  rate_window_start :: real
  rate_call_count :: nat
  token :: "string option"
  now :: real
  call_log :: "real list"
  auth_log :: nat
  events :: "event list"

definition sleep :: "real \<Rightarrow> client_state \<Rightarrow> client_state" where
  "sleep seconds st = st\<lparr>now := now st + seconds\<rparr>"

text \<open>
  What the login endpoint answers: a status code with the fields \<^verbatim>\<open>access_token\<close> and
  \<^verbatim>\<open>token\<close> of the body, or an exception (also when the body is not JSON).
\<close>

datatype auth_reply = AuthResponse nat "string option" "string option" | AuthException

definition str_truthy :: "string option \<Rightarrow> bool" where
  "str_truthy s = (case s of None \<Rightarrow> False | Some text \<Rightarrow> text \<noteq> [])"

text \<open>
  \<^verbatim>\<open>_get_auth_token\<close>: a cached token is returned as it is; otherwise the login endpoint is
  asked and a token it returns is cached with the prefix \<^verbatim>\<open>Bearer\<close>.
\<close>

definition get_auth_token :: "auth_reply \<Rightarrow> client_state \<Rightarrow> string option \<times> client_state" where
  "get_auth_token r st =
     (if str_truthy (token st) then (token st, st)
      else
        let st1 = st\<lparr>auth_log := auth_log st + 1\<rparr> in
        case r of
          AuthException \<Rightarrow> (None, st1)
        | AuthResponse status access_token token_field \<Rightarrow>
            if status = 200 then
              (let tok = (if str_truthy access_token then access_token else token_field) in
               if str_truthy tok
               then (Some (''Bearer '' @ the tok), st1\<lparr>token := Some (''Bearer '' @ the tok)\<rparr>)
               else (None, st1))
            else (None, st1))"

text \<open>
  What \<^verbatim>\<open>historicaldata\<close> answers: a status code, the body text and the outcome of
  \<^verbatim>\<open>resp.json()\<close> (a list, another value, or an exception), or a transport exception.
\<close>

datatype 'a json_result = JsonList "'a list" | JsonValue 'a | JsonError

datatype 'a http_reply = Response nat string "'a json_result" | TransportException

record 'a attempt_env =
  auth :: auth_reply
  reply :: "'a http_reply"
  latency :: real

text \<open>
  \<^verbatim>\<open>resp.text.lower()\<close> on ASCII text, and the test for the signature of a transient SQL
  timeout in the body of a 400 response (\<^verbatim>\<open>in\<close> on strings is the contiguous \<open>sublist\<close>).
\<close>

definition lower_char :: "char \<Rightarrow> char" where
  "lower_char c =
     (if 65 \<le> (of_char c :: nat) \<and> (of_char c :: nat) \<le> 90
      then (case c of Char b0 b1 b2 b3 b4 b5 b6 b7 \<Rightarrow> Char b0 b1 b2 b3 b4 True b6 b7)
      else c)"

definition lower :: "string \<Rightarrow> string" where
  "lower text = map lower_char text"

definition is_sql_timeout :: "string \<Rightarrow> bool" where
  "is_sql_timeout text =
     (let body_text = lower text
      in sublist ''sql server'' body_text \<or> sublist ''network-related'' body_text
         \<or> sublist ''timeout'' body_text)"

text \<open>
  Sleeping to the end of the window and resetting it; the code has these lines twice, in
  the rate check and in the handling of a 429.
\<close>

definition wait_and_reset_window :: "client_state \<Rightarrow> client_state" where
  "wait_and_reset_window st =
     (let elapsed = now st - rate_window_start st;
          st1 = (if elapsed < 3600 then sleep (3600 - elapsed) st else st)
      in st1\<lparr>rate_window_start := now st1, rate_call_count := 0,
             events := events st1 @ [WindowReset]\<rparr>)"

text \<open>The rate check at the head of every attempt.\<close>

definition rate_limit_check :: "client_state \<Rightarrow> client_state" where
  "rate_limit_check st =
     (if rate_call_count st \<ge> RATE_LIMIT_PER_HOUR then wait_and_reset_window st else st)"

text \<open>
  One attempt either returns from \<^verbatim>\<open>fetch_historical_data\<close> or goes on to the next
  iteration (\<^verbatim>\<open>continue\<close>). \<open>retry_or_fail\<close> is the recurring pattern \<^verbatim>\<open>if attempt < max_retries - 1\<close>:
  sleep and retry, else return \<^verbatim>\<open>None\<close>.
\<close>

datatype 'a step = Return "'a list option" | Retry

definition retry_or_fail :: "nat \<Rightarrow> nat \<Rightarrow> real \<Rightarrow> client_state \<Rightarrow> 'a step \<times> client_state" where
  "retry_or_fail attempt max_retries wait_time st =
     (if attempt < max_retries - 1 then (Retry, sleep wait_time st) else (Return None, st))"

text \<open>The body of the loop \<^verbatim>\<open>for attempt in range(max_retries)\<close>.\<close>

definition attempt_body ::
  "'a attempt_env \<Rightarrow> nat \<Rightarrow> nat \<Rightarrow> client_state \<Rightarrow> 'a step \<times> client_state" where
  "attempt_body env attempt max_retries st =
     (let st1 = rate_limit_check st;
          st2 = snd (get_auth_token (auth env) st1);
          st3 = st2\<lparr>call_log := call_log st2 @ [now st2]\<rparr>
      in case reply env of
           TransportException \<Rightarrow>
             retry_or_fail attempt max_retries (2 * (real attempt + 1)) (sleep (latency env) st3)
         | Response status_code text json \<Rightarrow>
             let st4 = (sleep (latency env) st3)\<lparr>rate_call_count := rate_call_count st3 + 1,
                                                 events := events st3 @ [Answered]\<rparr> in
             if status_code = 200 then
               (case json of
                  JsonList result \<Rightarrow> (Return (Some result), st4)
                | JsonValue result \<Rightarrow> (Return (Some [result]), st4)
                | JsonError \<Rightarrow> retry_or_fail attempt max_retries (2 * (real attempt + 1)) st4)
             else if status_code = 429 then
               (let st5 = wait_and_reset_window st4
                in if attempt < max_retries - 1 then (Retry, st5) else (Return None, st5))
             else if status_code = 404 then
               retry_or_fail attempt max_retries (2 * (real attempt + 1)) st4
             else if status_code = 500 \<or> status_code = 503 then
               retry_or_fail attempt max_retries (5 * (real attempt + 1)) st4
             else if status_code = 400 then
               (if is_sql_timeout text
                then retry_or_fail attempt max_retries (5 * (real attempt + 1)) st4
                else (Return None, st4))
             else (Return None, st4))"

text \<open>The loop itself, from iteration \<open>attempt\<close> on; \<open>env\<close> gives the answers of each iteration.\<close>

function fetch_attempts ::
  "(nat \<Rightarrow> 'a attempt_env) \<Rightarrow> nat \<Rightarrow> nat \<Rightarrow> client_state \<Rightarrow> 'a list option \<times> client_state" where
  "fetch_attempts env max_retries attempt st =
     (if attempt < max_retries then
        (case attempt_body (env attempt) attempt max_retries st of
           (Return result, st') \<Rightarrow> (result, st')
         | (Retry, st') \<Rightarrow> fetch_attempts env max_retries (attempt + 1) st')
      else (None, st))"
  by pat_completeness auto
termination
  by (relation "measure (\<lambda>(env, max_retries, attempt, st). max_retries - attempt)") auto

declare fetch_attempts.simps [simp del]

definition fetch_historical_data ::
  "(nat \<Rightarrow> 'a attempt_env) \<Rightarrow> nat \<Rightarrow> client_state \<Rightarrow> 'a list option \<times> client_state" where
  "fetch_historical_data env max_retries st = fetch_attempts env max_retries 0 st"

text \<open>The answers that the code retries: 429, 404, 500, 503, a 400 with the timeout signature, an exception.\<close>

definition transient_reply :: "'a http_reply \<Rightarrow> bool" where
  "transient_reply r =
     (case r of
        TransportException \<Rightarrow> True
      | Response status_code text json \<Rightarrow>
          status_code = 429 \<or> status_code = 404 \<or> status_code = 500 \<or> status_code = 503
          \<or> (status_code = 400 \<and> is_sql_timeout text))"

text \<open>The state at import of the module, and answers and states used in the examples.\<close>

definition initial_state :: client_state where
  "initial_state =
     \<lparr>rate_window_start = 0, rate_call_count = 0, token = None, now = 0, call_log = [],
      auth_log = 0, events = []\<rparr>"

definition flaky_env :: "nat \<Rightarrow> unit attempt_env" where
  "flaky_env attempt =
     \<lparr>auth = AuthResponse 200 (Some ''abc'') None,
      reply = (if attempt = 0 then TransportException
               else if attempt = 1 then Response 400 ''SQL Server Timeout'' JsonError
               else Response 503 [] JsonError),
      latency = 1\<rparr>"

text \<open>
  The number of requests that were answered since the last reset of the rate window, read
  off the recorded events: an answer adds one, a reset starts again from zero.
\<close>

fun count_events :: "event list \<Rightarrow> nat \<Rightarrow> nat" where
  "count_events [] n = n"
| "count_events (Answered # rest) n = count_events rest (n + 1)"
| "count_events (WindowReset # rest) n = count_events rest 0"

definition answered_since_reset :: "event list \<Rightarrow> nat" where
  "answered_since_reset es = count_events es 0"

text \<open>
  A run of calls to \<^verbatim>\<open>fetch_historical_data\<close> with the default \<^verbatim>\<open>max_retries\<close>, each after some
  idle time of the caller.
\<close>

fun run_fetches :: "(real \<times> (nat \<Rightarrow> 'a attempt_env)) list \<Rightarrow> client_state \<Rightarrow> client_state" where
  "run_fetches [] st = st"
| "run_fetches ((idle, env) # rest) st =
     run_fetches rest (snd (fetch_historical_data env 3 (sleep idle st)))"

text \<open>
  The rolling-hour property of the specification, on the log of start times: no hour that
  begins at the start of a call holds more than \<open>limit\<close> starts.
\<close>

definition calls_in_hour_from :: "real \<Rightarrow> real list \<Rightarrow> nat" where
  "calls_in_hour_from t starts = length (filter (\<lambda>s. t \<le> s \<and> s < t + 3600) starts)"

definition rolling_limit_ok :: "nat \<Rightarrow> real list \<Rightarrow> bool" where
  "rolling_limit_ok limit starts = list_all (\<lambda>t. calls_in_hour_from t starts \<le> limit) starts"

definition ok_env :: "nat \<Rightarrow> unit attempt_env" where
  "ok_env attempt =
     \<lparr>auth = AuthResponse 200 (Some ''abc'') None, reply = Response 200 [] (JsonList []),
      latency = 1\<rparr>"

definition burst :: "(real \<times> (nat \<Rightarrow> unit attempt_env)) list" where
  "burst = (3600, ok_env) # replicate 3000 (0, ok_env)"




definition full_state :: client_state where
  "full_state =
     \<lparr>rate_window_start = 0, rate_call_count = 3000, token = Some ''Bearer abc'', now = 3000,
      call_log = [], auth_log = 1, events = replicate 3000 Answered\<rparr>"

subsection \<open>Rate records and the two adapters\<close>

text \<open>
  The value of a record's \<^verbatim>\<open>date\<close> key is a string: either the \<^verbatim>\<open>%Y-%m-%d\<close> text of a day
  (\<open>ISO d\<close>, what \<^verbatim>\<open>strftime\<close> writes and \<^verbatim>\<open>strptime\<close> reads), or any other text.
\<close>

datatype date_str = ISO date | OtherText string

datatype source = Database | API

text \<open>
  A rate record, the dictionary that both adapters build. The keys that only carry text
  to the export (city, state, zip, distance, the dimensions, the feature flags and the
  amenities text) are left out: no property below reads them. A price is \<^verbatim>\<open>None\<close> or a
  number; \<open>truthy\<close> is Python's truth test of such a value.
\<close>

record rate_record =
  store_id :: int
  store_name :: string
  address :: string
  unit_type :: string
  unit_size :: string
  tag :: string
  walk_in_price :: "real option"
  online_price :: "real option"
  pct_difference :: "real option"
  date :: date_str
  promo :: string
  source :: source

definition truthy :: "real option \<Rightarrow> bool" where
  "truthy p = (case p of None \<Rightarrow> False | Some x \<Rightarrow> x \<noteq> 0)"

text \<open>
  The percent difference, as both adapters compute it:
  \<^verbatim>\<open>if regular_rate and online_rate and regular_rate > 0\<close>.
\<close>

definition pct_diff_of :: "real option \<Rightarrow> real option \<Rightarrow> real option" where
  "pct_diff_of regular_rate online_rate =
     (if truthy regular_rate \<and> truthy online_rate \<and> the regular_rate > 0
      then Some (((the regular_rate - the online_rate) / the regular_rate) * 100)
      else None)"

text \<open>
  A row of the tables \<^verbatim>\<open>dbo.Rates\<close> and \<^verbatim>\<open>dbo.Rates_2024\<close>, with the columns that the query
  selects and the records use. The dictionary that \<^verbatim>\<open>get_trailing_12_month_rates\<close> builds
  from a row has the same content under lower-case keys, so the model uses the row for it.
\<close>

record db_row =
  Store_ID :: int
  Spacetype :: string
  Size :: string
  Regular_Rate :: "real option"
  Online_Rate :: "real option"
  Promo :: string
  Date_Collected :: date
  CC :: bool
  Humidity_Controlled :: bool
  Drive_Up :: bool
  Elevator :: bool
  Car :: bool
  RV :: bool
  Boat :: bool
  Other_Vehicle :: bool

text \<open>
  The \<^verbatim>\<open>WHERE\<close> clause of the query (the order of the result is not modelled).
\<close>

definition select_rates :: "db_row list \<Rightarrow> int list \<Rightarrow> date \<Rightarrow> date \<Rightarrow> db_row list" where
  "select_rates table store_ids from_date to_date =
     filter (\<lambda>row. Store_ID row \<in> set store_ids
                  \<and> Date_Collected row \<ge> from_date
                  \<and> Date_Collected row \<le> to_date
                  \<and> Regular_Rate row \<noteq> None) table"

text \<open>
  Python dictionaries whose iteration order matters are association lists with distinct
  keys; \<open>AList.update\<close> keeps the place of a key that is present and appends a new one, as
  a dictionary does. The loop over the fetched rows appends the row to its store's list
  and adds its date to the store's set (the store is a key: the query selects no other).
\<close>

type_synonym rates_by_store = "(int \<times> db_row list) list"
type_synonym dates_by_store = "(int \<times> date set) list"

definition rates_of :: "rates_by_store \<Rightarrow> int \<Rightarrow> db_row list" where
  "rates_of rates store = (case map_of rates store of None \<Rightarrow> [] | Some rows \<Rightarrow> rows)"

definition dates_of :: "dates_by_store \<Rightarrow> int \<Rightarrow> date set" where
  "dates_of dates store = (case map_of dates store of None \<Rightarrow> {} | Some ds \<Rightarrow> ds)"

fun rows_loop :: "db_row list \<Rightarrow> rates_by_store \<times> dates_by_store \<Rightarrow> rates_by_store \<times> dates_by_store" where
  "rows_loop [] acc = acc"
| "rows_loop (row # rows) (rates, dates) =
     rows_loop rows
       (AList.update (Store_ID row) (rates_of rates (Store_ID row) @ [row]) rates,
        AList.update (Store_ID row) (insert (Date_Collected row) (dates_of dates (Store_ID row))) dates)"

text \<open>
  The loop over the tables; a table whose query raises (\<open>None\<close>) is skipped.
\<close>

fun tables_loop ::
  "db_row list option list \<Rightarrow> int list \<Rightarrow> date \<Rightarrow> date \<Rightarrow> rates_by_store \<times> dates_by_store
   \<Rightarrow> rates_by_store \<times> dates_by_store" where
  "tables_loop [] store_ids from_date to_date acc = acc"
| "tables_loop (None # tables) store_ids from_date to_date acc =
     tables_loop tables store_ids from_date to_date acc"
| "tables_loop (Some table # tables) store_ids from_date to_date acc =
     tables_loop tables store_ids from_date to_date
       (rows_loop (select_rates table store_ids from_date to_date) acc)"

record database =
  Rates :: "db_row list option"
  Rates_2024 :: "db_row list option"

text \<open>
  \<^verbatim>\<open>get_trailing_12_month_rates\<close> with both dates given. The table of the prior year is
  queried when \<^verbatim>\<open>from_date.year <= 2024\<close>, that is, up to day 739251 (2024-12-31).
\<close>

definition get_trailing_12_month_rates ::
  "database \<Rightarrow> int list \<Rightarrow> date \<Rightarrow> date \<Rightarrow> rates_by_store \<times> dates_by_store" where
  "get_trailing_12_month_rates db store_ids from_date to_date =
     (if store_ids = [] then ([], [])
      else
        let rates = fold (\<lambda>sid d. AList.update sid [] d) store_ids [];
            dates = fold (\<lambda>sid d. AList.update sid {} d) store_ids [];
            tables_to_query = [Rates db] @ (if from_date \<le> 739251 then [Rates_2024 db] else [])
        in tables_loop tables_to_query store_ids from_date to_date (rates, dates))"

text \<open>\<^verbatim>\<open>build_tag_string_from_db\<close>\<close>

definition build_tag_string_from_db :: "db_row \<Rightarrow> string" where
  "build_tag_string_from_db rate =
     (let access_type =
            (if Drive_Up rate \<or> Car rate \<or> RV rate \<or> Boat rate \<or> Other_Vehicle rate then ''Drive-Up''
             else if Elevator rate then ''Elevator''
             else ''Ground Level'');
          climate_type =
            (if CC rate then ''Climate Controlled''
             else if Humidity_Controlled rate then ''Humidity Controlled''
             else ''Non-Climate'')
      in access_type @ '' / '' @ climate_type)"

text \<open>
  The store information that \<^verbatim>\<open>main\<close> passes to both adapters
  (\<^verbatim>\<open>api_store_info\<close>); a key that is missing reads as the empty text.
\<close>

record store_info =
  info_store_name :: string
  info_address :: string

definition info_of :: "(int \<rightharpoonup> store_info) \<Rightarrow> int \<Rightarrow> store_info" where
  "info_of store_info store =
     (case store_info store of
        None \<Rightarrow> \<lparr>info_store_name = [], info_address = []\<rparr>
      | Some info \<Rightarrow> info)"

text \<open>\<^verbatim>\<open>convert_db_rates_to_records\<close>: the record of one rate, and the two loops.\<close>

definition db_record :: "(int \<rightharpoonup> store_info) \<Rightarrow> int \<Rightarrow> db_row \<Rightarrow> rate_record" where
  "db_record store_info store rate =
     (let info = info_of store_info store;
          regular_rate = Regular_Rate rate;
          online_rate = Online_Rate rate
      in \<lparr>store_id = store,
          store_name = info_store_name info,
          address = info_address info,
          unit_type = Spacetype rate,
          unit_size = Size rate,
          tag = build_tag_string_from_db rate,
          walk_in_price = regular_rate,
          online_price = online_rate,
          pct_difference = pct_diff_of regular_rate online_rate,
          date = ISO (Date_Collected rate),
          promo = Promo rate,
          source = Database\<rparr>)"

definition convert_db_rates_to_records ::
  "rates_by_store \<Rightarrow> (int \<rightharpoonup> store_info) \<Rightarrow> rate_record list" where
  "convert_db_rates_to_records rates store_info =
     concat (map (\<lambda>(store, rows). map (db_record store_info store) rows) rates)"

text \<open>
  The payload of \<^verbatim>\<open>historicaldata\<close>: stores, their unit types, and the prices of each unit
  type. A key that is missing reads as the empty text, a missing price as \<^verbatim>\<open>None\<close>.
\<close>

record api_price =
  price_date :: date_str
  regular :: "real option"
  online :: "real option"
  price_promo :: string

record api_unit =
  unit_kind :: string
  size_text :: string
  feature :: string
  price :: "api_price list"

record api_store =
  storeID :: int
  storeName :: string
  store_address :: string
  unitType :: "api_unit list"

text \<open>
  \<^verbatim>\<open>parse_api_rate_data\<close>: one record for every price of every unit type of every store.
  These records have no \<^verbatim>\<open>tag\<close> key, which the later stages read as the empty text.
\<close>

definition api_record :: "api_store \<Rightarrow> api_unit \<Rightarrow> api_price \<Rightarrow> rate_record" where
  "api_record store unit price_entry =
     (let regular_rate = regular price_entry;
          online_rate = online price_entry
      in \<lparr>store_id = storeID store,
          store_name = storeName store,
          address = store_address store,
          unit_type = unit_kind unit,
          unit_size = size_text unit,
          tag = [],
          walk_in_price = regular_rate,
          online_price = online_rate,
          pct_difference = pct_diff_of regular_rate online_rate,
          date = price_date price_entry,
          promo = price_promo price_entry,
          source = API\<rparr>)"

definition parse_api_rate_data :: "api_store list \<Rightarrow> rate_record list" where
  "parse_api_rate_data api_data =
     concat (map (\<lambda>store.
       concat (map (\<lambda>unit. map (api_record store unit) (price unit)) (unitType store))) api_data)"

text \<open>\<^verbatim>\<open>filter_unit_type\<close>\<close>

definition filter_unit_type :: "rate_record list \<Rightarrow> string \<Rightarrow> rate_record list" where
  "filter_unit_type records wanted = filter (\<lambda>r. lower (unit_type r) = lower wanted) records"

text \<open>
  Steps 10 to 12 of \<^verbatim>\<open>main\<close>: the records parsed from the answers of the API are collected,
  the database records are put in front of them, and the unit type \<^verbatim>\<open>Unit\<close> is selected.
  The steps that follow before the export (custom store names, feature codes) rewrite the
  name and the tag of a record; they remove no record and change no key.
\<close>

definition api_records_of :: "api_store list list \<Rightarrow> rate_record list" where
  "api_records_of answers = concat (map parse_api_rate_data answers)"

definition all_records ::
  "rates_by_store \<Rightarrow> (int \<rightharpoonup> store_info) \<Rightarrow> api_store list list \<Rightarrow> rate_record list" where
  "all_records rates store_info answers =
     (let api_records = api_records_of answers;
          db_records = convert_db_rates_to_records rates store_info
      in filter_unit_type (db_records @ api_records) ''Unit'')"

text \<open>The key on which the specification deduplicates.\<close>

definition record_key :: "rate_record \<Rightarrow> int \<times> date_str \<times> string \<times> string" where
  "record_key r = (store_id r, date r, unit_size r, unit_type r)"

text \<open>
  The invariant that the specification states for a retained record: its date is a day of
  the requested window, and one of its prices is not \<^verbatim>\<open>None\<close>.
\<close>

definition record_invariant :: "date \<Rightarrow> date \<Rightarrow> rate_record \<Rightarrow> bool" where
  "record_invariant from_date to_date r =
     ((case date r of ISO d \<Rightarrow> from_date \<le> d \<and> d \<le> to_date | OtherText t \<Rightarrow> False)
      \<and> (walk_in_price r \<noteq> None \<or> online_price r \<noteq> None))"

text \<open>
  The percent difference in the words of the specification: computed whenever both prices
  are present and the regular price is positive.
\<close>

definition spec_pct_difference :: "real option \<Rightarrow> real option \<Rightarrow> real option" where
  "spec_pct_difference regular_rate online_rate =
     (case (regular_rate, online_rate) of
        (Some reg, Some onl) \<Rightarrow> if reg > 0 then Some ((reg - onl) / reg * 100) else None
      | _ \<Rightarrow> None)"

text \<open>All price entries of a payload, in the order of the payload.\<close>

definition price_entries :: "api_store list \<Rightarrow> api_price list" where
  "price_entries api_data = concat (map (\<lambda>store. concat (map price (unitType store))) api_data)"

text \<open>
  Example data: a database with one row for store 1 on 2025-01-05 (day 739256), an answer
  of the API with a price for the same store, day, size and unit type, and an answer with
  a price entry that has no price and a day long before the window.
\<close>

definition local_row :: db_row where
  "local_row =
     \<lparr>Store_ID = 1, Spacetype = ''Unit'', Size = ''10x10'', Regular_Rate = Some 100,
      Online_Rate = Some 90, Promo = [], Date_Collected = 739256, CC = False,
      Humidity_Controlled = False, Drive_Up = False, Elevator = False, Car = False, RV = False,
      Boat = False, Other_Vehicle = False\<rparr>"

definition example_db :: database where
  "example_db = \<lparr>Rates = Some [local_row], Rates_2024 = None\<rparr>"

definition example_info :: "int \<rightharpoonup> store_info" where
  "example_info = [1 \<mapsto> \<lparr>info_store_name = ''E1'', info_address = ''1 Main St''\<rparr>]"

definition api_answer :: "api_price \<Rightarrow> api_store list" where
  "api_answer price_entry =
     [\<lparr>storeID = 1, storeName = ''E1'', store_address = ''1 Main St'',
       unitType = [\<lparr>unit_kind = ''Unit'', size_text = ''10x10'', feature = [],
                    price = [price_entry]\<rparr>]\<rparr>]"

definition same_key_price :: api_price where
  "same_key_price =
     \<lparr>price_date = ISO 739256, regular = Some 95, online = Some 85, price_promo = []\<rparr>"

definition stray_price :: api_price where
  "stray_price = \<lparr>price_date = ISO 730000, regular = None, online = None, price_promo = []\<rparr>"

definition zero_online_price :: api_price where
  "zero_online_price =
     \<lparr>price_date = ISO 739257, regular = Some 100, online = Some 0, price_promo = []\<rparr>"

text \<open>
  What holds of the rows collected so far, used in the proofs: each row satisfies \<open>P\<close>, is
  filed under its own store, and its date is in the set of dates of that store.
\<close>

definition rates_inv :: "(db_row \<Rightarrow> bool) \<Rightarrow> rates_by_store \<times> dates_by_store \<Rightarrow> bool" where
  "rates_inv P acc =
     (\<forall>(store, rows) \<in> set (fst acc). \<forall>row \<in> set rows.
        P row \<and> Store_ID row = store \<and> Date_Collected row \<in> dates_of (snd acc) store)"

text \<open>The key of a record together with its source, for the examples.\<close>

definition key_and_source :: "rate_record \<Rightarrow> (int \<times> date_str \<times> string \<times> string) \<times> source" where
  "key_and_source r = (record_key r, source r)"

subsection \<open>The two reports\<close>

text \<open>
  A cell of a report is empty, an amount (the text \<^verbatim>\<open>f"${x:.2f}"\<close>) or a percentage (the text
  \<^verbatim>\<open>f"{p:.1f}%"\<close>); the rounding to the printed digits is not modelled. An amount is
  printed under Python's truth test: \<^verbatim>\<open>f"${x:.2f}" if x else ''\<close>.
\<close>

datatype cell = Blank | Dollar real | Percent real

definition money_cell :: "real option \<Rightarrow> cell" where
  "money_cell p = (if truthy p then Dollar (the p) else Blank)"

text \<open>
  \<^verbatim>\<open>export_to_csv\<close>: the row that is written for a record (the order of the rows and the
  columns of the keys that the record type leaves out are not modelled).
\<close>

record csv1_row =
  Store_Name :: string
  ADDRESS :: string
  UNIT_SIZE :: string
  UNIT_TYPE :: string
  REGULAR_PRICE :: cell
  ONLINE_PRICE :: cell
  Pct_Difference :: cell
  Price_Capture_Date :: date_str
  PROMOTION :: string
  TAG :: string

definition export_row :: "rate_record \<Rightarrow> csv1_row" where
  "export_row rec =
     (let pct_str = (case pct_difference rec of None \<Rightarrow> Blank | Some pct_diff \<Rightarrow> Percent pct_diff)
      in \<lparr>Store_Name = store_name rec,
          ADDRESS = address rec,
          UNIT_SIZE = unit_size rec,
          UNIT_TYPE = unit_type rec,
          REGULAR_PRICE = money_cell (walk_in_price rec),
          ONLINE_PRICE = money_cell (online_price rec),
          Pct_Difference = pct_str,
          Price_Capture_Date = date rec,
          PROMOTION = promo rec,
          TAG = tag rec\<rparr>)"

definition export_to_csv :: "rate_record list \<Rightarrow> csv1_row list" where
  "export_to_csv records = map export_row records"

text \<open>
  In \<^verbatim>\<open>generate_csv2_report\<close> the date of a record is a \<^verbatim>\<open>datetime\<close> at midnight, of which the
  code reads the month and which it compares with the start of a period; the comparison
  of such values is that of year, month and day in this order.
\<close>

record datetime =
  year :: int
  month :: nat
  day :: nat

definition datetime_le :: "datetime \<Rightarrow> datetime \<Rightarrow> bool" where
  "datetime_le a b =
     (year a < year b
      \<or> (year a = year b \<and> (month a < month b \<or> (month a = month b \<and> day a \<le> day b))))"

text \<open>The dictionaries that the report groups by size, tag and store.\<close>

record group_record =
  g_date :: datetime
  g_walk_in_price :: "real option"
  g_online_price :: "real option"
  g_store_name :: string
  g_store_id :: int

text \<open>\<^verbatim>\<open>sum(xs) / len(xs) if xs else None\<close>\<close>

definition mean :: "real list \<Rightarrow> real option" where
  "mean xs = (if xs \<noteq> [] then Some (sum_list xs / real (length xs)) else None)"

text \<open>
  The list comprehensions \<^verbatim>\<open>[r[price] for r in records if cond(r) and r[price]]\<close> of the
  report.
\<close>

definition prices_where ::
  "(group_record \<Rightarrow> real option) \<Rightarrow> (group_record \<Rightarrow> bool) \<Rightarrow> group_record list \<Rightarrow> real list" where
  "prices_where price_of cond records =
     map (\<lambda>r. the (price_of r)) (filter (\<lambda>r. cond r \<and> truthy (price_of r)) records)"

text \<open>\<^verbatim>\<open>calc_t_averages\<close>\<close>

definition calc_t_averages ::
  "group_record list \<Rightarrow> datetime \<Rightarrow> real \<Rightarrow> real option \<times> real option \<times> real option" where
  "calc_t_averages records start_date adjustment_pct =
     (let walk_in_prices = prices_where g_walk_in_price (\<lambda>r. datetime_le start_date (g_date r)) records;
          online_prices = prices_where g_online_price (\<lambda>r. datetime_le start_date (g_date r)) records;
          walk_in_avg = mean walk_in_prices;
          online_avg = mean online_prices;
          online_adj_avg =
            (if truthy online_avg then Some (the online_avg * (1 + adjustment_pct)) else None)
      in (walk_in_avg, online_avg, online_adj_avg))"

text \<open>
  The loop of a store's row that files the prices under the month of their date
  (\<^verbatim>\<open>monthly_walk_in\<close> and \<^verbatim>\<open>monthly_online\<close>, which start with the empty list for each month).
\<close>

fun monthly_loop ::
  "group_record list \<Rightarrow> (nat \<Rightarrow> real list) \<times> (nat \<Rightarrow> real list)
   \<Rightarrow> (nat \<Rightarrow> real list) \<times> (nat \<Rightarrow> real list)" where
  "monthly_loop [] acc = acc"
| "monthly_loop (r # rest) (monthly_walk_in, monthly_online) =
     (let m = month (g_date r);
          monthly_walk_in' =
            (if truthy (g_walk_in_price r)
             then monthly_walk_in(m := monthly_walk_in m @ [the (g_walk_in_price r)])
             else monthly_walk_in);
          monthly_online' =
            (if truthy (g_online_price r)
             then monthly_online(m := monthly_online m @ [the (g_online_price r)])
             else monthly_online)
      in monthly_loop rest (monthly_walk_in', monthly_online'))"

text \<open>
  The three cells of month \<open>i\<close> in a store's row (in store, asking unadjusted, asking
  adjusted), the cells of a trailing period in a store's row, and the same for the row
  \<^verbatim>\<open>AVERAGE\<close> of a group, whose adjusted cells are empty.
\<close>

definition store_month_cells :: "group_record list \<Rightarrow> real \<Rightarrow> nat \<Rightarrow> cell \<times> cell \<times> cell" where
  "store_month_cells rate_records adjustment_pct i =
     (let (monthly_walk_in, monthly_online) = monthly_loop rate_records (\<lambda>m. [], \<lambda>m. []);
          walk_in_avg = mean (monthly_walk_in i);
          online_avg = mean (monthly_online i);
          online_adj_avg =
            (if truthy online_avg then Some (the online_avg * (1 + adjustment_pct)) else None)
      in (money_cell walk_in_avg, money_cell online_avg, money_cell online_adj_avg))"

definition store_period_cells ::
  "group_record list \<Rightarrow> datetime \<Rightarrow> real \<Rightarrow> cell \<times> cell \<times> cell" where
  "store_period_cells rate_records start_date adjustment_pct =
     (case calc_t_averages rate_records start_date adjustment_pct of
        (walk, online_avg, adj) \<Rightarrow> (money_cell walk, money_cell online_avg, money_cell adj))"

definition average_month_cells :: "group_record list \<Rightarrow> nat \<Rightarrow> cell \<times> cell \<times> cell" where
  "average_month_cells all_records_in_group i =
     (let month_walk_in = prices_where g_walk_in_price (\<lambda>r. month (g_date r) = i) all_records_in_group;
          month_online = prices_where g_online_price (\<lambda>r. month (g_date r) = i) all_records_in_group;
          walk_avg = mean month_walk_in;
          online_avg = mean month_online
      in (money_cell walk_avg, money_cell online_avg, Blank))"

definition average_period_cells :: "group_record list \<Rightarrow> datetime \<Rightarrow> cell \<times> cell \<times> cell" where
  "average_period_cells all_records_in_group start_date =
     (case calc_t_averages all_records_in_group start_date 0 of
        (walk, online_avg, adj) \<Rightarrow> (money_cell walk, money_cell online_avg, Blank))"

text \<open>
  Records in which every price of exactly zero is replaced by \<^verbatim>\<open>None\<close>: the same records
  with the zero prices absent.
\<close>

definition zero_as_absent :: "real option \<Rightarrow> real option" where
  "zero_as_absent p = (if p = Some 0 then None else p)"

definition without_zero_prices :: "group_record \<Rightarrow> group_record" where
  "without_zero_prices r =
     r\<lparr>g_walk_in_price := zero_as_absent (g_walk_in_price r),
       g_online_price := zero_as_absent (g_online_price r)\<rparr>"

text \<open>
  The example of the specification for the aggregation, with a third record that has the
  price zero: entity E1 on 2025-01-10 (online 100), 2025-02-10 (online 110) and 2025-02-11
  (online 0).
\<close>

definition example_group :: "group_record list" where
  "example_group =
     [\<lparr>g_date = \<lparr>year = 2025, month = 1, day = 10\<rparr>, g_walk_in_price = None,
        g_online_price = Some 100, g_store_name = ''E1'', g_store_id = 1\<rparr>,
      \<lparr>g_date = \<lparr>year = 2025, month = 2, day = 10\<rparr>, g_walk_in_price = None,
        g_online_price = Some 110, g_store_name = ''E1'', g_store_id = 1\<rparr>,
      \<lparr>g_date = \<lparr>year = 2025, month = 2, day = 11\<rparr>, g_walk_in_price = Some 0,
        g_online_price = Some 0, g_store_name = ''E1'', g_store_id = 1\<rparr>]"

section \<open>Properties\<close>

subsection \<open>Adjustment scorer\<close>

lemma factors_loop_sum: "factors_loop vs total_adj = total_adj + sum_list vs"
  by (induction vs arbitrary: total_adj) simp_all

lemma weights_loop_sum:
  "weights_loop c s ws total_adj =
     total_adj + (\<Sum>(category, weight) \<leftarrow> ws. weight * real_of_int (get_rank c category - get_rank s category))"
  by (induction ws arbitrary: total_adj) (auto simp: Let_def)

text \<open>
  Claim C4. The adjustment of a comparator is the sum, over the eight fixed categories, of
  the category's weight times the rank difference (comparator minus subject), a rank that
  is missing from a map counting as 5, plus the sum of the flat factor values; on the
  worked example (subject all 5 but Size 7, comparator all 5 but Size 9 and Brand 8, one
  flat factor 0.02) the result is exactly 0.07.
\<close>

theorem calculate_store_adjustment_formula:
  "calculate_store_adjustment c s fs =
       0.01 * real_of_int (get_rank c ''Location'' - get_rank s ''Location'')
     + 0.01 * real_of_int (get_rank c ''Age'' - get_rank s ''Age'')
     + 0.005 * real_of_int (get_rank c ''Accessibility'' - get_rank s ''Accessibility'')
     + 0.005 * real_of_int (get_rank c ''VPD'' - get_rank s ''VPD'')
     + 0.005 * real_of_int (get_rank c ''Visibility & Signage'' - get_rank s ''Visibility & Signage'')
     + 0.01 * real_of_int (get_rank c ''Brand'' - get_rank s ''Brand'')
     + 0.01 * real_of_int (get_rank c ''Quality'' - get_rank s ''Quality'')
     + 0.01 * real_of_int (get_rank c ''Size'' - get_rank s ''Size'')
     + sum_list (map snd fs)
   \<and> get_rank (r(category := None)) category = 5
   \<and> get_rank (r(category \<mapsto> rank)) category = rank
   \<and> calculate_store_adjustment [''Size'' \<mapsto> 9, ''Brand'' \<mapsto> 8] [''Size'' \<mapsto> 7]
        [(''CaptiveMarketPremium'', 0.02)] = 0.07"
  by (simp add: calculate_store_adjustment_def factors_loop_sum weights_loop_sum weights_def
      get_rank_def)

lemma weights_loop_self: "weights_loop r r ws total_adj = total_adj"
  by (induction ws arbitrary: total_adj) (auto simp: Let_def)

lemma adjustments_loop_subject:
  "adjustments_loop subject rk fs stores m subject =
     (if subject \<in> set stores then Some 0 else m subject)"
  by (induction stores arbitrary: m) auto

text \<open>
  Claim C5, as the code has it. Comparing a store with itself, the scorer returns the sum
  of the flat factor values: the rank differences cancel, the flat factors do not. The
  subject's own adjustment in the grouped report is exactly zero all the same, because
  \<^verbatim>\<open>generate_csv2_report\<close> assigns it without calling the scorer.
\<close>

theorem self_adjustment_is_flat_factors:
  "calculate_store_adjustment r r fs = sum_list (map snd fs)
   \<and> calculate_store_adjustment r r [] = 0
   \<and> (\<exists>m. store_adjustments (subject # others) rk fs = Inr m \<and> m subject = Some 0)"
  by (simp add: calculate_store_adjustment_def factors_loop_sum weights_loop_self
      store_adjustments_def adjustments_loop_subject)

text \<open>
  The scorer itself is not zero on equal rankings as soon as a flat factor is not zero.
\<close>

theorem self_adjustment_counterexample:
  "calculate_store_adjustment [''Size'' \<mapsto> 7] [''Size'' \<mapsto> 7]
     [(''CaptiveMarketPremium'', 0.02)] \<noteq> 0"
  by (simp add: calculate_store_adjustment_def factors_loop_sum weights_loop_self)

subsection \<open>Gap analysis\<close>

lemma all_dates_loop_eq: "all_dates_loop c t acc = acc \<union> {c..t}"
proof (induction c t acc rule: all_dates_loop.induct)
  case (1 current to_date all_dates)
  show ?case
  proof (cases "current \<le> to_date")
    case True
    then have "{current..to_date} = insert current {current + 1..to_date}" by auto
    with 1 True show ?thesis by (subst all_dates_loop.simps) auto
  next
    case False
    then show ?thesis by (subst all_dates_loop.simps) auto
  qed
qed

lemma days_of_ranges_loop:
  "s \<le> e \<Longrightarrow> days_of_ranges (ranges_loop s e rest acc) = days_of_ranges acc @ [s..e] @ rest"
proof (induction rest arbitrary: s e acc)
  case Nil
  then show ?case by (simp add: days_of_ranges_def)
next
  case (Cons d rest)
  show ?case
  proof (cases "d - e = 1")
    case True
    then have d: "d = e + 1" by simp
    have "[s..e + 1] = [s..e] @ [e + 1]" using Cons.prems by (simp add: upto_rec2)
    with Cons.IH[of s d acc] Cons.prems d show ?thesis by simp
  next
    case False
    with Cons.IH[of d d "acc @ [(s, e)]"] show ?thesis by (simp add: days_of_ranges_def)
  qed
qed


lemma ranges_loop_acc:
  "ranges_loop s e rest (r # acc) = (r # acc) @ ranges_loop s e rest []"
proof (induction rest arbitrary: s e r acc)
  case Nil
  show ?case by simp
next
  case (Cons d rest)
  have "ranges_loop d d rest ((r # acc) @ [(s, e)]) = ((r # acc) @ [(s, e)]) @ ranges_loop d d rest []"
    using Cons.IH[of d d r "acc @ [(s, e)]"] by simp
  moreover have "ranges_loop d d rest [(s, e)] = [(s, e)] @ ranges_loop d d rest []"
    using Cons.IH[of d d "(s, e)" "[]"] by simp
  ultimately show ?case using Cons.IH[of s d r acc] by simp
qed

lemma ranges_loop_Cons:
  "ranges_loop s e (d # rest) [] =
     (if d - e = 1 then ranges_loop s d rest [] else (s, e) # ranges_loop d d rest [])"
  using ranges_loop_acc[of d d rest "(s, e)" "[]"] by simp

lemma ranges_loop_head: "\<exists>e' rs. ranges_loop s e rest [] = (s, e') # rs"
proof (induction rest arbitrary: e)
  case Nil
  show ?case by simp
next
  case (Cons d rest)
  show ?case using Cons.IH[of d] by (simp only: ranges_loop_Cons) auto
qed

lemma ranges_loop_ordered:
  "s \<le> e \<Longrightarrow> list_all (\<lambda>(a, b). a \<le> b) (ranges_loop s e rest [])"
proof (induction rest arbitrary: s e)
  case Nil
  then show ?case by simp
next
  case (Cons d rest)
  show ?case
  proof (cases "d - e = 1")
    case True
    then have "s \<le> d" using Cons.prems by simp
    from Cons.IH[OF this] True show ?thesis by (simp only: ranges_loop_Cons) simp
  next
    case False
    with Cons.IH[of d d] Cons.prems show ?thesis by (simp only: ranges_loop_Cons) simp
  qed
qed

lemma ranges_loop_separated:
  "sorted_wrt (<) (e # rest) \<Longrightarrow> separated (ranges_loop s e rest [])"
proof (induction rest arbitrary: s e)
  case Nil
  show ?case by simp
next
  case (Cons d rest)
  from Cons.prems have ed: "e < d" and sd: "sorted_wrt (<) (d # rest)" by auto
  show ?case
  proof (cases "d - e = 1")
    case True
    with Cons.IH[OF sd, of s] show ?thesis by (simp only: ranges_loop_Cons) simp
  next
    case False
    obtain e' rs where h: "ranges_loop d d rest [] = (d, e') # rs"
      using ranges_loop_head by blast
    from False ed have "e + 1 < d" by simp
    with Cons.IH[OF sd, of d] h False show ?thesis by (simp only: ranges_loop_Cons) simp
  qed
qed

lemma ranges_loop_starts:
  "sorted_wrt (<) (e # rest) \<Longrightarrow>
   map fst (ranges_loop s e rest []) =
     s # map snd (filter (\<lambda>(previous, next_day). next_day - previous > 1) (zip (e # rest) rest))"
proof (induction rest arbitrary: s e)
  case Nil
  show ?case by simp
next
  case (Cons d rest)
  from Cons.prems have ed: "e < d" and sd: "sorted_wrt (<) (d # rest)" by auto
  show ?case
  proof (cases "d - e = 1")
    case True
    with Cons.IH[OF sd, of s] show ?thesis by (simp only: ranges_loop_Cons) simp
  next
    case False
    from False ed have "d - e > 1" by simp
    with Cons.IH[OF sd, of d] False show ?thesis by (simp only: ranges_loop_Cons) simp
  qed
qed

lemma days_of_ranges_Nil: "days_of_ranges [] = []"
  by (simp add: days_of_ranges_def)

lemma date_ranges_days: "days_of_ranges (date_ranges missing) = missing"
  by (cases missing) (simp_all add: date_ranges_def days_of_ranges_loop days_of_ranges_Nil)

text \<open>
  Claim C3. For a store with coverage set \<open>store_dates\<close> and the inclusive window from
  \<open>from_date\<close> to \<open>to_date\<close>, the gap analysis returns the days of the window that are not
  covered, in ascending order and without repetition. The ranges built from them cover
  exactly these days, in order; each range is well formed; consecutive ranges are more than
  one day apart (so they are disjoint and maximal); and a range starts exactly at the
  first missing day and at each missing day that is more than one day after the one before.
\<close>

theorem gap_analysis_exact:
  assumes "dates_by_store store = Some store_dates"
  shows "\<exists>missing.
           analyze_date_gaps dates_by_store from_date to_date store = Some missing
         \<and> set missing = {from_date..to_date} - store_dates
         \<and> sorted missing \<and> distinct missing
         \<and> days_of_ranges (date_ranges missing) = missing
         \<and> list_all (\<lambda>(range_start, range_end). range_start \<le> range_end) (date_ranges missing)
         \<and> separated (date_ranges missing)
         \<and> map fst (date_ranges missing) = run_starts missing"
proof -
  define missing where "missing = sorted_list_of_set ({from_date..to_date} - store_dates)"
  have fin: "finite ({from_date..to_date} - store_dates)" by simp
  have a: "analyze_date_gaps dates_by_store from_date to_date store = Some missing"
    using assms by (simp add: analyze_date_gaps_def all_dates_loop_eq missing_def)
  have b: "set missing = {from_date..to_date} - store_dates"
    unfolding missing_def using fin by simp
  have c: "sorted missing" "distinct missing"
    unfolding missing_def by simp_all
  then have sw: "sorted_wrt (<) missing" by (simp add: strict_sorted_iff)
  have d: "list_all (\<lambda>(range_start, range_end). range_start \<le> range_end) (date_ranges missing)"
    by (cases missing) (simp_all add: date_ranges_def ranges_loop_ordered)
  have e: "separated (date_ranges missing)"
    using sw by (cases missing) (simp_all add: date_ranges_def ranges_loop_separated del: sorted_wrt.simps)
  have f: "map fst (date_ranges missing) = run_starts missing"
    using sw by (cases missing) (simp_all add: date_ranges_def run_starts_def ranges_loop_starts del: sorted_wrt.simps)
  from a b c d e f date_ranges_days show ?thesis by blast
qed

text \<open>
  The example of the specification: the window 2024-12-01 to 2024-12-10 (day numbers 739221
  to 739230) with the 1st, 2nd, 5th, 6th and 7th covered.
\<close>

theorem gap_analysis_exact_witness:
  "[1 \<mapsto> {739221, 739222, 739225, 739226, 739227}] (1::int) = Some {739221, 739222, 739225, 739226, 739227 :: int}
   \<and> analyze_date_gaps [1 \<mapsto> {739221, 739222, 739225, 739226, 739227}] 739221 739230 1
       = Some [739223, 739224, 739228, 739229, 739230]
   \<and> date_ranges [739223, 739224, 739228, 739229, 739230] = [(739223, 739224), (739228, 739230)]
   \<and> separated (date_ranges [739223, 739224, 739228, 739229, 739230])
   \<and> run_starts [739223, 739224, 739228, 739229, 739230] = [739223, 739228]"
proof -
  have h: "[1 \<mapsto> {739221, 739222, 739225, 739226, 739227}] (1::int) = Some {739221, 739222, 739225, 739226, 739227 :: int}"
    by simp
  have g: "analyze_date_gaps [1 \<mapsto> {739221, 739222, 739225, 739226, 739227}] 739221 739230 1
       = Some [739223, 739224, 739228, 739229, 739230]"
    by code_simp
  have r: "date_ranges [739223, 739224, 739228, 739229, 739230] = [(739223, 739224), (739228, 739230)]"
    by (simp add: date_ranges_def)
  from gap_analysis_exact[of "[1 \<mapsto> {739221, 739222, 739225, 739226, 739227}]" 1
      "{739221, 739222, 739225, 739226, 739227}" 739221 739230] h g r
  show ?thesis by (simp add: run_starts_def)
qed

subsection \<open>Remote client\<close>

lemma sleep_fields [simp]:
  "call_log (sleep d st) = call_log st"
  "token (sleep d st) = token st"
  "auth_log (sleep d st) = auth_log st"
  "rate_call_count (sleep d st) = rate_call_count st"
  "rate_window_start (sleep d st) = rate_window_start st"
  "now (sleep d st) = now st + d"
  by (simp_all add: sleep_def)

lemma wait_and_reset_window_fields [simp]:
  "call_log (wait_and_reset_window st) = call_log st"
  "token (wait_and_reset_window st) = token st"
  "auth_log (wait_and_reset_window st) = auth_log st"
  "rate_call_count (wait_and_reset_window st) = 0"
  "rate_window_start (wait_and_reset_window st) = now (wait_and_reset_window st)"
  by (simp_all add: wait_and_reset_window_def Let_def)

lemma wait_and_reset_window_now:
  "now (wait_and_reset_window st) = max (now st) (rate_window_start st + 3600)"
  by (simp add: wait_and_reset_window_def Let_def max_def)

lemma rate_limit_check_fields [simp]:
  "call_log (rate_limit_check st) = call_log st"
  "token (rate_limit_check st) = token st"
  "auth_log (rate_limit_check st) = auth_log st"
  by (simp_all add: rate_limit_check_def)

lemma rate_limit_check_count: "rate_call_count (rate_limit_check st) < RATE_LIMIT_PER_HOUR"
  by (simp add: rate_limit_check_def RATE_LIMIT_PER_HOUR_def)

lemma get_auth_token_fields [simp]:
  "call_log (snd (get_auth_token r st)) = call_log st"
  "now (snd (get_auth_token r st)) = now st"
  "rate_call_count (snd (get_auth_token r st)) = rate_call_count st"
  "rate_window_start (snd (get_auth_token r st)) = rate_window_start st"
  by (simp_all add: get_auth_token_def Let_def split: auth_reply.splits)


lemma retry_or_fail_fields [simp]:
  "call_log (snd (retry_or_fail a m w st)) = call_log st"
  "token (snd (retry_or_fail a m w st)) = token st"
  "auth_log (snd (retry_or_fail a m w st)) = auth_log st"
  "rate_call_count (snd (retry_or_fail a m w st)) = rate_call_count st"
  "fst (retry_or_fail a m w st) = (if a < m - 1 then Retry else Return None)"
  by (simp_all add: retry_or_fail_def)

lemma attempt_body_log:
  "call_log (snd (attempt_body e a m st)) = call_log st @ [now (rate_limit_check st)]"
  by (simp add: attempt_body_def Let_def split: http_reply.splits json_result.splits)

lemma attempt_body_count:
  "rate_call_count (snd (attempt_body e a m st)) \<le> RATE_LIMIT_PER_HOUR"
  using rate_limit_check_count[of st]
  by (simp add: attempt_body_def Let_def split: http_reply.splits json_result.splits)

lemma attempt_body_transient:
  "transient_reply (reply e) \<Longrightarrow>
   fst (attempt_body e a m st) = (if a < m - 1 then Retry else Return None)"
  by (auto simp: attempt_body_def Let_def transient_reply_def split: http_reply.splits)



lemma fetch_attempts_log_bound:
  "length (call_log (snd (fetch_attempts env m a st))) \<le> length (call_log st) + (m - a)"
proof (induction env m a st rule: fetch_attempts.induct)
  case (1 env m a st)
  show ?case
  proof (cases "a < m")
    case False
    then show ?thesis by (simp add: fetch_attempts.simps)
  next
    case True
    obtain x st' where b: "attempt_body (env a) a m st = (x, st')" by (cases "attempt_body (env a) a m st")
    have l: "length (call_log st') = length (call_log st) + 1"
      using attempt_body_log[of "env a" a m st] b by simp
    show ?thesis
    proof (cases x)
      case (Return r)
      with True b l show ?thesis by (simp add: fetch_attempts.simps)
    next
      case Retry
      from "1.IH"[OF True b[symmetric] Retry] l True b Retry show ?thesis
        by (simp add: fetch_attempts.simps)
    qed
  qed
qed

lemma fetch_attempts_transient:
  "(\<And>i. transient_reply (reply (env i))) \<Longrightarrow> a < m \<Longrightarrow>
   fst (fetch_attempts env m a st) = None
   \<and> length (call_log (snd (fetch_attempts env m a st))) = length (call_log st) + (m - a)"
proof (induction env m a st rule: fetch_attempts.induct)
  case (1 env m a st)
  obtain x st' where b: "attempt_body (env a) a m st = (x, st')" by (cases "attempt_body (env a) a m st")
  have l: "length (call_log st') = length (call_log st) + 1"
    using attempt_body_log[of "env a" a m st] b by simp
  have x: "x = (if a < m - 1 then Retry else Return None)"
    using attempt_body_transient[OF "1.prems"(1), of a a m st] b by simp
  show ?case
  proof (cases "a < m - 1")
    case True
    with x have r: "x = Retry" by simp
    from True have "a + 1 < m" by simp
    from "1.IH"[OF "1.prems"(2) b[symmetric] r "1.prems"(1) this] l b r "1.prems"(2) True
    show ?thesis by (simp add: fetch_attempts.simps[of env m a st])
  next
    case False
    with x have r: "x = Return None" by simp
    from False "1.prems"(2) have "m - a = 1" by simp
    with l b r "1.prems"(2) show ?thesis by (simp add: fetch_attempts.simps[of env m a st])
  qed
qed

lemma fetch_attempts_count:
  "rate_call_count st \<le> RATE_LIMIT_PER_HOUR \<Longrightarrow>
   rate_call_count (snd (fetch_attempts env m a st)) \<le> RATE_LIMIT_PER_HOUR"
proof (induction env m a st rule: fetch_attempts.induct)
  case (1 env m a st)
  show ?case
  proof (cases "a < m")
    case False
    with "1.prems" show ?thesis by (simp add: fetch_attempts.simps[of env m a st])
  next
    case True
    obtain x st' where b: "attempt_body (env a) a m st = (x, st')" by (cases "attempt_body (env a) a m st")
    have c: "rate_call_count st' \<le> RATE_LIMIT_PER_HOUR"
      using attempt_body_count[of "env a" a m st] b by simp
    show ?thesis
    proof (cases x)
      case (Return r)
      with True b c show ?thesis by (simp add: fetch_attempts.simps[of env m a st])
    next
      case Retry
      from "1.IH"[OF True b[symmetric] Retry c] True b Retry show ?thesis
        by (simp add: fetch_attempts.simps[of env m a st])
    qed
  qed
qed


lemma fetch_attempts_return:
  "a < m \<Longrightarrow> fst (attempt_body (env a) a m st) = Return r \<Longrightarrow>
   fetch_attempts env m a st = (r, snd (attempt_body (env a) a m st))"
  by (cases "attempt_body (env a) a m st") (simp add: fetch_attempts.simps[of env m a st])

text \<open>
  Claim C9. With \<^verbatim>\<open>max_retries = 3\<close>, \<^verbatim>\<open>fetch_historical_data\<close> starts at most three requests
  whatever the answers are, and when every answer is of a retried class (429, 404, 500, 503,
  a 400 with the timeout signature, or a transport exception) it makes exactly three
  attempts and returns \<^verbatim>\<open>None\<close>. The function is total: the loop always ends.
\<close>

theorem fetch_historical_data_bounded:
  "length (call_log (snd (fetch_historical_data env 3 st))) \<le> length (call_log st) + 3
   \<and> ((\<forall>attempt. transient_reply (reply (env attempt))) \<longrightarrow>
        fst (fetch_historical_data env 3 st) = None
        \<and> length (call_log (snd (fetch_historical_data env 3 st))) = length (call_log st) + 3)"
  using fetch_attempts_log_bound[of env 3 0 st] fetch_attempts_transient[of env 0 3 st]
  by (auto simp: fetch_historical_data_def)

lemma flaky_env_transient: "transient_reply (reply (flaky_env attempt))"
  by (simp add: transient_reply_def flaky_env_def is_sql_timeout_def lower_def lower_char_def
      sublist_code)

theorem fetch_historical_data_bounded_witness:
  "(\<forall>attempt. transient_reply (reply (flaky_env attempt)))
   \<and> fst (fetch_historical_data flaky_env 3 initial_state) = None
   \<and> length (call_log (snd (fetch_historical_data flaky_env 3 initial_state))) = 3"
  using fetch_historical_data_bounded[of flaky_env initial_state] flaky_env_transient
  by (simp add: initial_state_def)









lemma run_fetches_count:
  "rate_call_count st \<le> RATE_LIMIT_PER_HOUR \<Longrightarrow>
   rate_call_count (run_fetches calls st) \<le> RATE_LIMIT_PER_HOUR"
proof (induction calls arbitrary: st)
  case Nil
  then show ?case by simp
next
  case (Cons c calls)
  obtain idle env where c: "c = (idle, env)" by (cases c)
  have "rate_call_count (snd (fetch_historical_data env 3 (sleep idle st))) \<le> RATE_LIMIT_PER_HOUR"
    using Cons.prems by (simp add: fetch_historical_data_def fetch_attempts_count)
  from Cons.IH[OF this] c show ?case by simp
qed

lemma count_events_append:
  "count_events (es @ [Answered]) n = count_events es n + 1"
  "count_events (es @ [WindowReset]) n = 0"
  by (induction es n rule: count_events.induct) simp_all

lemma answered_since_reset_append [simp]:
  "answered_since_reset (es @ [Answered]) = answered_since_reset es + 1"
  "answered_since_reset (es @ [WindowReset]) = 0"
  "answered_since_reset (es @ [Answered, WindowReset]) = 0"
  using count_events_append(2)[of "es @ [Answered]" 0]
  by (simp_all add: answered_since_reset_def count_events_append)

lemma count_events_replicate: "count_events (replicate n Answered) k = k + n"
  by (induction n arbitrary: k) simp_all

lemma events_fields [simp]:
  "events (sleep d st) = events st"
  "events (snd (get_auth_token r st)) = events st"
  "events (snd (retry_or_fail a m w st)) = events st"
  "events (wait_and_reset_window st) = events st @ [WindowReset]"
  by (simp_all add: sleep_def get_auth_token_def retry_or_fail_def wait_and_reset_window_def
      Let_def split: auth_reply.splits)

lemma rate_limit_check_events:
  "events (rate_limit_check st) =
     (if rate_call_count st \<ge> RATE_LIMIT_PER_HOUR then events st @ [WindowReset] else events st)"
  "rate_call_count (rate_limit_check st) =
     (if rate_call_count st \<ge> RATE_LIMIT_PER_HOUR then 0 else rate_call_count st)"
  by (simp_all add: rate_limit_check_def)

lemma attempt_body_events:
  "events (snd (attempt_body e a m st)) =
     events (rate_limit_check st) @
       (case reply e of
          TransportException \<Rightarrow> []
        | Response status_code text json \<Rightarrow>
            if status_code = 429 then [Answered, WindowReset] else [Answered])"
  by (simp add: attempt_body_def Let_def split: http_reply.splits json_result.splits)

lemma attempt_body_counter:
  "rate_call_count (snd (attempt_body e a m st)) =
     (case reply e of
        TransportException \<Rightarrow> rate_call_count (rate_limit_check st)
      | Response status_code text json \<Rightarrow>
          if status_code = 429 then 0 else rate_call_count (rate_limit_check st) + 1)"
  by (simp add: attempt_body_def Let_def split: http_reply.splits json_result.splits)

lemma rate_limit_check_counted:
  "rate_call_count st = answered_since_reset (events st) \<Longrightarrow>
   rate_call_count (rate_limit_check st) = answered_since_reset (events (rate_limit_check st))"
  by (simp add: rate_limit_check_events)

lemma attempt_body_counted:
  "rate_call_count st = answered_since_reset (events st) \<Longrightarrow>
   rate_call_count (snd (attempt_body e a m st))
     = answered_since_reset (events (snd (attempt_body e a m st)))"
  using rate_limit_check_counted[of st]
  by (simp add: attempt_body_events attempt_body_counter split: http_reply.splits)

lemma fetch_attempts_counted:
  "rate_call_count st = answered_since_reset (events st) \<Longrightarrow>
   rate_call_count (snd (fetch_attempts env m a st))
     = answered_since_reset (events (snd (fetch_attempts env m a st)))"
proof (induction env m a st rule: fetch_attempts.induct)
  case (1 env m a st)
  show ?case
  proof (cases "a < m")
    case False
    with "1.prems" show ?thesis by (simp add: fetch_attempts.simps[of env m a st])
  next
    case True
    obtain x st' where b: "attempt_body (env a) a m st = (x, st')" by (cases "attempt_body (env a) a m st")
    have c: "rate_call_count st' = answered_since_reset (events st')"
      using attempt_body_counted[OF "1.prems", of "env a" a m] b by simp
    show ?thesis
    proof (cases x)
      case (Return r)
      with True b c show ?thesis by (simp add: fetch_attempts.simps[of env m a st])
    next
      case Retry
      from "1.IH"[OF True b[symmetric] Retry c] True b Retry show ?thesis
        by (simp add: fetch_attempts.simps[of env m a st])
    qed
  qed
qed

lemma run_fetches_counted:
  "rate_call_count st = answered_since_reset (events st) \<Longrightarrow>
   rate_call_count (run_fetches calls st) = answered_since_reset (events (run_fetches calls st))"
proof (induction calls arbitrary: st)
  case Nil
  then show ?case by simp
next
  case (Cons c calls)
  obtain idle env where c: "c = (idle, env)" by (cases c)
  have "rate_call_count (sleep idle st) = answered_since_reset (events (sleep idle st))"
    using Cons.prems by simp
  then have "rate_call_count (snd (fetch_historical_data env 3 (sleep idle st)))
      = answered_since_reset (events (snd (fetch_historical_data env 3 (sleep idle st))))"
    unfolding fetch_historical_data_def by (rule fetch_attempts_counted)
  from Cons.IH[OF this] c show ?case by simp
qed

text \<open>
  Claim C2, as the code has it. The limiter is a counter over a fixed window. Every answer
  to a request is recorded and adds one to the shared counter, an exception adds nothing,
  and a reset of the window (in the rate check, or after a 429) sets it to zero; so the
  counter is the number of requests answered since the last reset of the window, and over
  one call and over any run of calls, from the initial state in particular, this number
  never exceeds the limit. Each attempt starts its request when the rate check is done;
  below the limit the rate check does nothing, and when the counter has reached the limit
  it blocks until one hour has passed since the window's start, then resets the counter
  and starts a new window.
\<close>

theorem fixed_window_counter:
  assumes "rate_call_count st \<le> RATE_LIMIT_PER_HOUR"
  shows "rate_call_count (snd (fetch_historical_data env max_retries st)) \<le> RATE_LIMIT_PER_HOUR
       \<and> rate_call_count (run_fetches calls st) \<le> RATE_LIMIT_PER_HOUR
       \<and> call_log (snd (attempt_body e attempt max_retries st))
           = call_log st @ [now (rate_limit_check st)]
       \<and> (rate_call_count st = RATE_LIMIT_PER_HOUR \<longrightarrow>
            now (rate_limit_check st) - rate_window_start st \<ge> 3600
            \<and> now (rate_limit_check st) = max (now st) (rate_window_start st + 3600)
            \<and> rate_window_start (rate_limit_check st) = now (rate_limit_check st)
            \<and> rate_call_count (rate_limit_check st) = 0
            \<and> events (rate_limit_check st) = events st @ [WindowReset])
       \<and> (rate_call_count st < RATE_LIMIT_PER_HOUR \<longrightarrow> rate_limit_check st = st)
       \<and> events (snd (attempt_body e attempt max_retries st))
           = events (rate_limit_check st) @
               (case reply e of
                  TransportException \<Rightarrow> []
                | Response status_code text json \<Rightarrow>
                    if status_code = 429 then [Answered, WindowReset] else [Answered])
       \<and> rate_call_count (snd (attempt_body e attempt max_retries st))
           = (case reply e of
                TransportException \<Rightarrow> rate_call_count (rate_limit_check st)
              | Response status_code text json \<Rightarrow>
                  if status_code = 429 then 0 else rate_call_count (rate_limit_check st) + 1)
       \<and> (rate_call_count st = answered_since_reset (events st) \<longrightarrow>
            rate_call_count (snd (fetch_historical_data env max_retries st))
              = answered_since_reset (events (snd (fetch_historical_data env max_retries st)))
            \<and> answered_since_reset (events (snd (fetch_historical_data env max_retries st)))
                \<le> RATE_LIMIT_PER_HOUR
            \<and> rate_call_count (run_fetches calls st)
                = answered_since_reset (events (run_fetches calls st))
            \<and> answered_since_reset (events (run_fetches calls st)) \<le> RATE_LIMIT_PER_HOUR)
       \<and> rate_call_count (run_fetches calls initial_state)
           = answered_since_reset (events (run_fetches calls initial_state))
       \<and> answered_since_reset (events (run_fetches calls initial_state)) \<le> RATE_LIMIT_PER_HOUR"
proof -
  have old: "rate_call_count (snd (fetch_historical_data env max_retries st)) \<le> RATE_LIMIT_PER_HOUR
       \<and> rate_call_count (run_fetches calls st) \<le> RATE_LIMIT_PER_HOUR
       \<and> call_log (snd (attempt_body e attempt max_retries st))
           = call_log st @ [now (rate_limit_check st)]"
    using assms fetch_attempts_count[of st env max_retries 0] run_fetches_count[of st calls]
    by (simp add: fetch_historical_data_def attempt_body_log)
  have gate: "now (rate_limit_check st) - rate_window_start st \<ge> 3600
            \<and> now (rate_limit_check st) = max (now st) (rate_window_start st + 3600)
            \<and> rate_window_start (rate_limit_check st) = now (rate_limit_check st)
            \<and> rate_call_count (rate_limit_check st) = 0
            \<and> events (rate_limit_check st) = events st @ [WindowReset]"
    if "rate_call_count st = RATE_LIMIT_PER_HOUR"
    using that by (auto simp: rate_limit_check_def wait_and_reset_window_now max_def)
  have below: "rate_limit_check st = st" if "rate_call_count st < RATE_LIMIT_PER_HOUR"
    using that by (simp add: rate_limit_check_def)
  have counted: "rate_call_count (snd (fetch_historical_data env max_retries st))
              = answered_since_reset (events (snd (fetch_historical_data env max_retries st)))
            \<and> answered_since_reset (events (snd (fetch_historical_data env max_retries st)))
                \<le> RATE_LIMIT_PER_HOUR
            \<and> rate_call_count (run_fetches calls st)
                = answered_since_reset (events (run_fetches calls st))
            \<and> answered_since_reset (events (run_fetches calls st)) \<le> RATE_LIMIT_PER_HOUR"
    if i: "rate_call_count st = answered_since_reset (events st)"
    using old fetch_attempts_counted[OF i, of env max_retries 0] run_fetches_counted[OF i, of calls]
    by (simp add: fetch_historical_data_def)
  have i0: "rate_call_count initial_state = answered_since_reset (events initial_state)"
    by (simp add: initial_state_def answered_since_reset_def)
  have c0: "rate_call_count initial_state \<le> RATE_LIMIT_PER_HOUR"
    by (simp add: initial_state_def)
  have init: "rate_call_count (run_fetches calls initial_state)
           = answered_since_reset (events (run_fetches calls initial_state))
       \<and> answered_since_reset (events (run_fetches calls initial_state)) \<le> RATE_LIMIT_PER_HOUR"
    using run_fetches_counted[OF i0, of calls] run_fetches_count[OF c0, of calls] by simp
  from old gate below counted init attempt_body_events[of e attempt max_retries st]
    attempt_body_counter[of e attempt max_retries st]
  show ?thesis by blast
qed

text \<open>
  With the counter at the limit and the window 3000 seconds old, the next attempt waits
  until second 3600, resets the window and counts its answer as the first of the new one.
\<close>

theorem fixed_window_counter_witness:
  "rate_call_count full_state \<le> RATE_LIMIT_PER_HOUR
   \<and> rate_call_count full_state = RATE_LIMIT_PER_HOUR
   \<and> rate_call_count full_state = answered_since_reset (events full_state)
   \<and> rate_call_count (snd (fetch_historical_data ok_env 3 full_state)) \<le> RATE_LIMIT_PER_HOUR
   \<and> answered_since_reset (events (snd (fetch_historical_data ok_env 3 full_state)))
       \<le> RATE_LIMIT_PER_HOUR
   \<and> call_log (snd (attempt_body (ok_env 0) 0 3 full_state)) = [3600]
   \<and> now (rate_limit_check full_state) = 3600
   \<and> rate_window_start (rate_limit_check full_state) = 3600
   \<and> rate_call_count (rate_limit_check full_state) = 0
   \<and> events (snd (attempt_body (ok_env 0) 0 3 full_state))
       = replicate 3000 Answered @ [WindowReset, Answered]
   \<and> rate_call_count (snd (attempt_body (ok_env 0) 0 3 full_state)) = 1
   \<and> rate_call_count initial_state < RATE_LIMIT_PER_HOUR
   \<and> rate_call_count (snd (attempt_body (ok_env 0) 0 3 initial_state)) = 1
   \<and> events (snd (attempt_body (ok_env 0) 0 3 initial_state)) = [Answered]"
proof -
  have h: "rate_call_count full_state \<le> RATE_LIMIT_PER_HOUR"
    by (simp add: full_state_def RATE_LIMIT_PER_HOUR_def)
  have i: "rate_call_count full_state = answered_since_reset (events full_state)"
    by (simp add: full_state_def answered_since_reset_def count_events_replicate)
  have n: "now (rate_limit_check full_state) = 3600"
    by (simp add: rate_limit_check_def wait_and_reset_window_now)
       (simp add: full_state_def RATE_LIMIT_PER_HOUR_def)
  have r: "reply (ok_env 0) = Response 200 [] (JsonList [])"
    by (simp add: ok_env_def)
  have h0: "rate_call_count initial_state \<le> RATE_LIMIT_PER_HOUR"
    "rate_call_count initial_state < RATE_LIMIT_PER_HOUR"
    by (simp_all add: initial_state_def RATE_LIMIT_PER_HOUR_def)
  from fixed_window_counter[OF h, of ok_env 3 "[]" "ok_env 0" 0] i n r
  have a: "rate_call_count (snd (fetch_historical_data ok_env 3 full_state)) \<le> RATE_LIMIT_PER_HOUR"
    "answered_since_reset (events (snd (fetch_historical_data ok_env 3 full_state)))
       \<le> RATE_LIMIT_PER_HOUR"
    "call_log (snd (attempt_body (ok_env 0) 0 3 full_state)) = [3600]"
    "rate_window_start (rate_limit_check full_state) = 3600"
    "rate_call_count (rate_limit_check full_state) = 0"
    "events (snd (attempt_body (ok_env 0) 0 3 full_state))
       = replicate 3000 Answered @ [WindowReset, Answered]"
    "rate_call_count (snd (attempt_body (ok_env 0) 0 3 full_state)) = 1"
    by (simp_all add: full_state_def RATE_LIMIT_PER_HOUR_def)
  from fixed_window_counter[OF h0(1), of ok_env 3 "[]" "ok_env 0" 0] h0(2) r
  have b: "rate_call_count (snd (attempt_body (ok_env 0) 0 3 initial_state)) = 1"
    "events (snd (attempt_body (ok_env 0) 0 3 initial_state)) = [Answered]"
    by (simp_all add: initial_state_def)
  from h i n a b h0(2) show ?thesis
    by (simp add: full_state_def RATE_LIMIT_PER_HOUR_def)
qed

lemma attempt_body_ok:
  "fst (attempt_body (ok_env a) a m st) = Return (Some [])"
  by (simp add: attempt_body_def Let_def ok_env_def)

lemma attempt_body_ok_fields:
  "now (snd (attempt_body (ok_env a) a m st)) = now (rate_limit_check st) + 1"
  "rate_call_count (snd (attempt_body (ok_env a) a m st)) = rate_call_count (rate_limit_check st) + 1"
  "rate_window_start (snd (attempt_body (ok_env a) a m st)) = rate_window_start (rate_limit_check st)"
  by (simp_all add: attempt_body_def Let_def ok_env_def)

lemma ok_fetch:
  "snd (fetch_historical_data ok_env 3 st) = snd (attempt_body (ok_env 0) 0 3 st)"
  using fetch_attempts_return[of 0 3 ok_env st "Some []"]
  by (simp add: fetch_historical_data_def attempt_body_ok)

lemma ok_fetch_token:
  "token (snd (fetch_historical_data ok_env 3 st)) \<noteq> None \<and>
   token (snd (fetch_historical_data ok_env 3 st)) \<noteq> Some []"
  by (simp add: ok_fetch attempt_body_def Let_def ok_env_def get_auth_token_def str_truthy_def
      split: option.splits)

lemma ok_burst:
  "rate_call_count st + k \<le> RATE_LIMIT_PER_HOUR \<Longrightarrow>
   now (run_fetches (replicate k (0, ok_env)) st) = now st + real k
   \<and> rate_call_count (run_fetches (replicate k (0, ok_env)) st) = rate_call_count st + k
   \<and> rate_window_start (run_fetches (replicate k (0, ok_env)) st) = rate_window_start st
   \<and> call_log (run_fetches (replicate k (0, ok_env)) st)
       = call_log st @ map (\<lambda>i. now st + real i) [0..<k]"
proof (induction k arbitrary: st)
  case 0
  show ?case by simp
next
  case (Suc k)
  define st1 where "st1 = snd (fetch_historical_data ok_env 3 (sleep 0 st))"
  have s0: "sleep 0 st = st" by (simp add: sleep_def)
  from Suc.prems have lt: "rate_call_count st < RATE_LIMIT_PER_HOUR" by simp
  then have g: "rate_limit_check st = st" by (simp add: rate_limit_check_def)
  have f: "now st1 = now st + 1" "rate_call_count st1 = rate_call_count st + 1"
    "rate_window_start st1 = rate_window_start st" "call_log st1 = call_log st @ [now st]"
    by (simp_all add: st1_def s0 ok_fetch attempt_body_ok_fields attempt_body_log g)
  from Suc.prems f have "rate_call_count st1 + k \<le> RATE_LIMIT_PER_HOUR" by simp
  from Suc.IH[OF this] have ih:
    "now (run_fetches (replicate k (0, ok_env)) st1) = now st1 + real k"
    "rate_call_count (run_fetches (replicate k (0, ok_env)) st1) = rate_call_count st1 + k"
    "rate_window_start (run_fetches (replicate k (0, ok_env)) st1) = rate_window_start st1"
    "call_log (run_fetches (replicate k (0, ok_env)) st1)
       = call_log st1 @ map (\<lambda>i. now st1 + real i) [0..<k]"
    by simp_all
  have r: "run_fetches (replicate (Suc k) (0, ok_env)) st = run_fetches (replicate k (0, ok_env)) st1"
    by (simp add: st1_def)
  have m: "map (\<lambda>i. now st + real i) [0..<Suc k] = now st # map (\<lambda>i. now st + 1 + real i) [0..<k]"
    by (simp add: upt_conv_Cons map_Suc_upt[symmetric] del: upt_Suc)
  show ?case
    unfolding r using ih f by (simp only: m) simp
qed

lemma run_fetches_append: "run_fetches (xs @ ys) st = run_fetches ys (run_fetches xs st)"
  by (induction xs arbitrary: st) auto

lemma burst_log:
  "call_log (run_fetches burst initial_state)
     = 3600 # map (\<lambda>i. 3601 + real i) [0..<2999] @ [6600]"
proof -
  define st1 where "st1 = snd (fetch_historical_data ok_env 3 (sleep 3600 initial_state))"
  have g: "rate_limit_check (sleep 3600 initial_state) = sleep 3600 initial_state"
    by (simp add: rate_limit_check_def initial_state_def RATE_LIMIT_PER_HOUR_def)
  have f1: "now st1 = 3601" "rate_call_count st1 = 1" "rate_window_start st1 = 0"
    "call_log st1 = [3600]"
    by (simp_all add: st1_def ok_fetch attempt_body_ok_fields attempt_body_log g)
       (simp_all add: initial_state_def)
  define st2 where "st2 = run_fetches (replicate 2999 (0, ok_env)) st1"
  have "rate_call_count st1 + 2999 \<le> RATE_LIMIT_PER_HOUR"
    by (simp add: f1 RATE_LIMIT_PER_HOUR_def)
  from ok_burst[OF this] have f2: "now st2 = 6600" "rate_call_count st2 = 3000"
    "rate_window_start st2 = 0" "call_log st2 = 3600 # map (\<lambda>i. 3601 + real i) [0..<2999]"
    by (simp_all add: st2_def f1)
  have s0: "sleep 0 st2 = st2" by (simp add: sleep_def)
  have n: "now (rate_limit_check st2) = 6600"
    by (simp add: rate_limit_check_def wait_and_reset_window_now f2 RATE_LIMIT_PER_HOUR_def)
  have f3: "call_log (snd (fetch_historical_data ok_env 3 (sleep 0 st2)))
      = 3600 # map (\<lambda>i. 3601 + real i) [0..<2999] @ [6600]"
    by (simp add: s0 ok_fetch attempt_body_log n f2)
  have "(3000 :: nat) = Suc 2999" by simp
  then have "replicate 3000 (0 :: real, ok_env) = replicate 2999 (0, ok_env) @ [(0, ok_env)]"
    by (simp only: replicate_Suc replicate_append_same)
  then have b: "burst = (3600, ok_env) # replicate 2999 (0, ok_env) @ [(0, ok_env)]"
    by (simp add: burst_def)
  show ?thesis
    unfolding b using f3 by (simp add: run_fetches_append st1_def[symmetric] st2_def[symmetric])
qed

text \<open>
  The counter does not bound the calls of a rolling hour. After an idle hour, 3001 calls
  of one second each start between the seconds 3600 and 6600: the counter reaches the
  limit with the 3000th, and the window is by then older than an hour, so the next call
  resets it without waiting.
\<close>

theorem rolling_hour_counterexample:
  "\<not> rolling_limit_ok RATE_LIMIT_PER_HOUR (call_log (run_fetches burst initial_state))"
proof -
  have "filter (\<lambda>s. 3600 \<le> s \<and> s < 3600 + 3600) (3600 # map (\<lambda>i. 3601 + real i) [0..<2999] @ [6600])
        = 3600 # map (\<lambda>i. 3601 + real i) [0..<2999] @ [6600]"
    by (rule filter_True) auto
  then have "calls_in_hour_from 3600 (call_log (run_fetches burst initial_state)) = 3001"
    by (simp add: calls_in_hour_from_def burst_log)
  then show ?thesis
    by (simp add: rolling_limit_ok_def RATE_LIMIT_PER_HOUR_def burst_log[symmetric])
       (simp add: burst_log)
qed

subsection \<open>Rate records and the two adapters\<close>

lemma set_update_subset: "set (AList.update k v al) \<subseteq> insert (k, v) (set al)"
  by (induction al) auto

lemma rates_of_in: "rates_of rates k = rows \<Longrightarrow> rows \<noteq> [] \<Longrightarrow> (k, rows) \<in> set rates"
  by (auto simp: rates_of_def split: option.splits dest: map_of_SomeD)

lemma dates_of_update:
  "dates_of (AList.update k v dates) k' = (if k' = k then v else dates_of dates k')"
  by (simp add: dates_of_def update_conv')

lemma rows_loop_inv:
  "rates_inv P acc \<Longrightarrow> \<forall>row \<in> set rows. P row \<Longrightarrow> rates_inv P (rows_loop rows acc)"
proof (induction rows arbitrary: acc)
  case Nil
  then show ?case by simp
next
  case (Cons row rows)
  obtain rates dates where acc: "acc = (rates, dates)" by (cases acc)
  define rates' where "rates' = AList.update (Store_ID row) (rates_of rates (Store_ID row) @ [row]) rates"
  define dates' where
    "dates' = AList.update (Store_ID row) (insert (Date_Collected row) (dates_of dates (Store_ID row))) dates"
  have "rates_inv P (rates', dates')"
    unfolding rates_inv_def
  proof (clarsimp)
    fix store rs r
    assume m: "(store, rs) \<in> set rates'" and r: "r \<in> set rs"
    from m set_update_subset[of "Store_ID row" _ rates]
    have "(store, rs) = (Store_ID row, rates_of rates (Store_ID row) @ [row]) \<or> (store, rs) \<in> set rates"
      unfolding rates'_def by blast
    then show "P r \<and> Store_ID r = store \<and> Date_Collected r \<in> dates_of dates' store"
    proof
      assume e: "(store, rs) = (Store_ID row, rates_of rates (Store_ID row) @ [row])"
      show ?thesis
      proof (cases "r = row")
        case True
        with e Cons.prems(2) show ?thesis by (simp add: dates'_def dates_of_update)
      next
        case False
        with e r have rin: "r \<in> set (rates_of rates (Store_ID row))" by simp
        then have "rates_of rates (Store_ID row) \<noteq> []" by auto
        from rates_of_in[OF refl this] have "(Store_ID row, rates_of rates (Store_ID row)) \<in> set rates" .
        with Cons.prems(1) rin acc e show ?thesis
          by (fastforce simp: rates_inv_def dates'_def dates_of_update)
      qed
    next
      assume "(store, rs) \<in> set rates"
      with Cons.prems(1) r acc show ?thesis
        by (fastforce simp: rates_inv_def dates'_def dates_of_update)
    qed
  qed
  from Cons.IH[OF this] Cons.prems(2) acc show ?case
    by (simp add: rates'_def dates'_def)
qed

lemma select_rates_window:
  "row \<in> set (select_rates table store_ids from_date to_date) \<Longrightarrow>
   from_date \<le> Date_Collected row \<and> Date_Collected row \<le> to_date \<and> Regular_Rate row \<noteq> None"
  by (simp add: select_rates_def)

lemma tables_loop_inv:
  "rates_inv (\<lambda>row. from_date \<le> Date_Collected row \<and> Date_Collected row \<le> to_date
                   \<and> Regular_Rate row \<noteq> None) acc \<Longrightarrow>
   rates_inv (\<lambda>row. from_date \<le> Date_Collected row \<and> Date_Collected row \<le> to_date
                   \<and> Regular_Rate row \<noteq> None) (tables_loop tables store_ids from_date to_date acc)"
proof (induction tables store_ids from_date to_date acc rule: tables_loop.induct)
  case (1 store_ids from_date to_date acc)
  then show ?case by simp
next
  case (2 tables store_ids from_date to_date acc)
  then show ?case by simp
next
  case (3 table tables store_ids from_date to_date acc)
  have "rates_inv (\<lambda>row. from_date \<le> Date_Collected row \<and> Date_Collected row \<le> to_date
                   \<and> Regular_Rate row \<noteq> None)
          (rows_loop (select_rates table store_ids from_date to_date) acc)"
    using "3.prems" by (rule rows_loop_inv) (simp add: select_rates_def)
  from "3.IH"[OF this] show ?case by simp
qed

lemma fold_update_empty:
  "\<forall>(k, v) \<in> set al. v = e \<Longrightarrow> \<forall>(k, v) \<in> set (fold (\<lambda>sid d. AList.update sid e d) ks al). v = e"
proof (induction ks arbitrary: al)
  case Nil
  then show ?case by simp
next
  case (Cons k ks)
  have "\<forall>(k', v) \<in> set (AList.update k e al). v = e"
    using Cons.prems set_update_subset[of k e al] by auto
  from Cons.IH[OF this] show ?case by simp
qed

lemma get_trailing_12_month_rates_inv:
  "rates_inv (\<lambda>row. from_date \<le> Date_Collected row \<and> Date_Collected row \<le> to_date
                   \<and> Regular_Rate row \<noteq> None)
     (get_trailing_12_month_rates db store_ids from_date to_date)"
proof (cases "store_ids = []")
  case True
  then show ?thesis by (simp add: get_trailing_12_month_rates_def rates_inv_def)
next
  case False
  have "\<forall>(k, v) \<in> set (fold (\<lambda>sid d. AList.update sid [] d) store_ids []). v = ([] :: db_row list)"
    by (rule fold_update_empty) simp
  then have "rates_inv (\<lambda>row. from_date \<le> Date_Collected row \<and> Date_Collected row \<le> to_date
                   \<and> Regular_Rate row \<noteq> None)
      (fold (\<lambda>sid d. AList.update sid [] d) store_ids [],
       fold (\<lambda>sid d. AList.update sid {} d) store_ids [])"
    by (fastforce simp: rates_inv_def)
  from tables_loop_inv[OF this] False show ?thesis
    by (simp add: get_trailing_12_month_rates_def Let_def)
qed

lemma convert_db_rates_to_records_mem:
  "r \<in> set (convert_db_rates_to_records rates store_info) \<longleftrightarrow>
   (\<exists>store rows row. (store, rows) \<in> set rates \<and> row \<in> set rows \<and> r = db_record store_info store row)"
  by (auto simp: convert_db_rates_to_records_def)

lemma parse_api_rate_data_mem:
  "r \<in> set (parse_api_rate_data api_data) \<longleftrightarrow>
   (\<exists>store unit p. store \<in> set api_data \<and> unit \<in> set (unitType store) \<and> p \<in> set (price unit)
      \<and> r = api_record store unit p)"
  by (auto simp: parse_api_rate_data_def)

lemma db_record_fields [simp]:
  "store_id (db_record info store row) = store"
  "date (db_record info store row) = ISO (Date_Collected row)"
  "walk_in_price (db_record info store row) = Regular_Rate row"
  "online_price (db_record info store row) = Online_Rate row"
  "pct_difference (db_record info store row) = pct_diff_of (Regular_Rate row) (Online_Rate row)"
  "unit_type (db_record info store row) = Spacetype row"
  "unit_size (db_record info store row) = Size row"
  "source (db_record info store row) = Database"
  by (simp_all add: db_record_def Let_def)

lemma api_record_fields [simp]:
  "store_id (api_record store unit p) = storeID store"
  "date (api_record store unit p) = price_date p"
  "walk_in_price (api_record store unit p) = regular p"
  "online_price (api_record store unit p) = online p"
  "pct_difference (api_record store unit p) = pct_diff_of (regular p) (online p)"
  "unit_type (api_record store unit p) = unit_kind unit"
  "unit_size (api_record store unit p) = size_text unit"
  "source (api_record store unit p) = API"
  by (simp_all add: api_record_def Let_def)

lemma db_records_source:
  "r \<in> set (convert_db_rates_to_records rates store_info) \<Longrightarrow> source r = Database"
  by (auto simp: convert_db_rates_to_records_mem)

lemma api_records_source: "r \<in> set (parse_api_rate_data api_data) \<Longrightarrow> source r = API"
  by (auto simp: parse_api_rate_data_mem)

lemma parse_api_rate_data_entries:
  "map (\<lambda>r. (date r, walk_in_price r, online_price r)) (parse_api_rate_data api_data)
     = map (\<lambda>p. (price_date p, regular p, online p)) (price_entries api_data)"
  by (simp add: parse_api_rate_data_def price_entries_def map_concat comp_def)

lemma pct_diff_of_cases:
  "pct_diff_of regular_rate online_rate =
     (case (regular_rate, online_rate) of
        (Some reg, Some onl) \<Rightarrow>
          if reg > 0 \<and> onl \<noteq> 0 then Some ((reg - onl) / reg * 100) else None
      | _ \<Rightarrow> None)"
  by (auto simp: pct_diff_of_def truthy_def split: option.splits)

lemma example_rates:
  "get_trailing_12_month_rates example_db [1] 739221 739300
     = ([(1, [local_row])], [(1, {739256})])"
  by (simp add: get_trailing_12_month_rates_def example_db_def select_rates_def local_row_def
      rates_of_def dates_of_def)

lemma lower_Unit: "lower ''Unit'' = ''unit''"
  by (simp add: lower_def lower_char_def)

lemma example_db_records:
  "convert_db_rates_to_records (fst (get_trailing_12_month_rates example_db [1] 739221 739300)) example_info
     = [db_record example_info 1 local_row]"
  by (simp add: example_rates convert_db_rates_to_records_def)

lemma example_api_records:
  "api_records_of [api_answer p]
     = [api_record (hd (api_answer p)) (hd (unitType (hd (api_answer p)))) p]"
  by (simp add: api_records_of_def parse_api_rate_data_def api_answer_def)

lemma example_all_records:
  "all_records (fst (get_trailing_12_month_rates example_db [1] 739221 739300)) example_info [api_answer p]
     = [db_record example_info 1 local_row,
        api_record (hd (api_answer p)) (hd (unitType (hd (api_answer p)))) p]"
  unfolding all_records_def Let_def example_db_records example_api_records
  by (simp add: filter_unit_type_def lower_Unit local_row_def api_answer_def)

text \<open>
  Claim C6, as the code has it. Every record of the local adapter has a date within the
  requested window and a regular price that is not \<^verbatim>\<open>None\<close>, because the query selects
  such rows only. The remote adapter keeps every price entry of the payload as it is:
  the dates and prices of its records are those of the payload's entries, in order,
  whatever they are.
\<close>

theorem adapter_record_invariant:
  "(r \<in> set (convert_db_rates_to_records
               (fst (get_trailing_12_month_rates db store_ids from_date to_date)) info)
      \<longrightarrow> record_invariant from_date to_date r \<and> walk_in_price r \<noteq> None \<and> source r = Database)
   \<and> map (\<lambda>r. (date r, walk_in_price r, online_price r)) (parse_api_rate_data api_data)
       = map (\<lambda>p. (price_date p, regular p, online p)) (price_entries api_data)
   \<and> (r' \<in> set (parse_api_rate_data api_data) \<longrightarrow> source r' = API)"
proof -
  have "record_invariant from_date to_date r \<and> walk_in_price r \<noteq> None \<and> source r = Database"
    if m: "r \<in> set (convert_db_rates_to_records
               (fst (get_trailing_12_month_rates db store_ids from_date to_date)) info)"
  proof -
    from m obtain store rows row where
      h: "(store, rows) \<in> set (fst (get_trailing_12_month_rates db store_ids from_date to_date))"
         "row \<in> set rows" "r = db_record info store row"
      by (auto simp: convert_db_rates_to_records_mem)
    from get_trailing_12_month_rates_inv[of from_date to_date db store_ids] h(1,2)
    have "from_date \<le> Date_Collected row \<and> Date_Collected row \<le> to_date \<and> Regular_Rate row \<noteq> None"
      by (fastforce simp: rates_inv_def)
    with h(3) show ?thesis by (simp add: record_invariant_def)
  qed
  with parse_api_rate_data_entries[of api_data] api_records_source[of r' api_data]
  show ?thesis by blast
qed

theorem adapter_record_invariant_witness:
  "db_record example_info 1 local_row
     \<in> set (convert_db_rates_to_records
              (fst (get_trailing_12_month_rates example_db [1] 739221 739300)) example_info)
   \<and> record_invariant 739221 739300 (db_record example_info 1 local_row)
   \<and> api_record (hd (api_answer stray_price)) (hd (unitType (hd (api_answer stray_price)))) stray_price
       \<in> set (parse_api_rate_data (api_answer stray_price))
   \<and> map (\<lambda>r. (date r, walk_in_price r, online_price r)) (parse_api_rate_data (api_answer stray_price))
       = [(ISO 730000, None, None)]"
proof -
  have m: "db_record example_info 1 local_row
     \<in> set (convert_db_rates_to_records
              (fst (get_trailing_12_month_rates example_db [1] 739221 739300)) example_info)"
    by (simp add: example_db_records)
  have a: "api_record (hd (api_answer stray_price)) (hd (unitType (hd (api_answer stray_price)))) stray_price
       \<in> set (parse_api_rate_data (api_answer stray_price))"
    by (simp add: parse_api_rate_data_def api_answer_def)
  from adapter_record_invariant[of "db_record example_info 1 local_row" example_db "[1]" 739221
      739300 example_info "api_answer stray_price"
      "api_record (hd (api_answer stray_price)) (hd (unitType (hd (api_answer stray_price)))) stray_price"] m a
  show ?thesis
    by (simp add: price_entries_def api_answer_def stray_price_def)
qed

text \<open>
  A price entry of the API that has no price and a day before the window is kept in the
  combined records: the local record satisfies the invariant, the remote one does not.
\<close>

theorem remote_record_breaks_invariant:
  "map (record_invariant 739221 739300)
     (all_records (fst (get_trailing_12_month_rates example_db [1] 739221 739300)) example_info
        [api_answer stray_price])
   = [True, False]"
  by (simp add: example_all_records record_invariant_def local_row_def stray_price_def)

text \<open>
  Claim C8, as the code has it. For every record built by either adapter, the percent
  difference is (regular - online) / regular * 100 when both prices are present, the
  regular price is positive and the online price is not zero; otherwise it is \<^verbatim>\<open>None\<close>.
\<close>

theorem pct_difference_of_adapters:
  "r \<in> set (convert_db_rates_to_records rates info) \<or> r \<in> set (parse_api_rate_data api_data) \<Longrightarrow>
   pct_difference r =
     (case (walk_in_price r, online_price r) of
        (Some reg, Some onl) \<Rightarrow>
          if reg > 0 \<and> onl \<noteq> 0 then Some ((reg - onl) / reg * 100) else None
      | _ \<Rightarrow> None)"
  by (auto simp: convert_db_rates_to_records_mem parse_api_rate_data_mem pct_diff_of_cases
      split: option.splits)

theorem pct_difference_of_adapters_witness:
  "db_record example_info 1 local_row
     \<in> set (convert_db_rates_to_records [(1, [local_row])] example_info)
   \<and> walk_in_price (db_record example_info 1 local_row) = Some 100
   \<and> online_price (db_record example_info 1 local_row) = Some 90
   \<and> pct_difference (db_record example_info 1 local_row) = Some 10"
proof -
  have m: "db_record example_info 1 local_row
     \<in> set (convert_db_rates_to_records [(1, [local_row])] example_info)"
    by (simp add: convert_db_rates_to_records_def)
  from pct_difference_of_adapters[of "db_record example_info 1 local_row" "[(1, [local_row])]"
      example_info "[]"] m
  show ?thesis by (simp add: local_row_def)
qed

text \<open>
  With the regular price 100 and the online price 0, both present, the record's percent
  difference is \<^verbatim>\<open>None\<close>, where the specification's rule gives 100.
\<close>

theorem zero_online_price_counterexample:
  "map (\<lambda>r. (walk_in_price r, online_price r, pct_difference r,
              spec_pct_difference (walk_in_price r) (online_price r)))
     (parse_api_rate_data (api_answer zero_online_price))
   = [(Some 100, Some 0, None, Some 100)]"
  by (simp add: parse_api_rate_data_def api_answer_def zero_online_price_def pct_diff_of_def
      truthy_def spec_pct_difference_def)

text \<open>
  The example of the specification: a local and a remote record for store 1, 2025-01-05,
  size 10x10, unit type Unit. The combined records hold both copies.
\<close>

theorem key_collision_counterexample:
  "map key_and_source
     (all_records (fst (get_trailing_12_month_rates example_db [1] 739221 739300)) example_info
        [api_answer same_key_price])
   = [((1, ISO 739256, ''10x10'', ''Unit''), Database),
      ((1, ISO 739256, ''10x10'', ''Unit''), API)]"
  unfolding example_all_records
  by (simp add: key_and_source_def record_key_def local_row_def same_key_price_def api_answer_def)

lemma analyze_date_gaps_missing:
  "analyze_date_gaps dates from_date to_date store = Some missing \<Longrightarrow>
   \<exists>store_dates. dates store = Some store_dates
      \<and> set missing = {from_date..to_date} - store_dates"
  by (auto simp: analyze_date_gaps_def all_dates_loop_eq Let_def split: option.splits)

lemma filter_unit_type_append:
  "filter_unit_type (xs @ ys) wanted = filter_unit_type xs wanted @ filter_unit_type ys wanted"
  by (simp add: filter_unit_type_def)

lemma api_records_of_source: "r \<in> set (api_records_of answers) \<Longrightarrow> source r = API"
  by (auto simp: api_records_of_def api_records_source)

lemma gap_dates_have_no_local_record:
  assumes r: "r \<in> set (convert_db_rates_to_records
                (fst (get_trailing_12_month_rates db store_ids from_date to_date)) info)"
    and g: "analyze_date_gaps (map_of (snd (get_trailing_12_month_rates db store_ids from_date to_date)))
              from_date to_date (store_id r') = Some missing"
    and d: "date r' = ISO d" "d \<in> set missing"
  shows "record_key r' \<noteq> record_key r"
proof
  assume k: "record_key r' = record_key r"
  from r obtain store rows row where
    h: "(store, rows) \<in> set (fst (get_trailing_12_month_rates db store_ids from_date to_date))"
       "row \<in> set rows" "r = db_record info store row"
    by (auto simp: convert_db_rates_to_records_mem)
  from get_trailing_12_month_rates_inv[of from_date to_date db store_ids] h(1,2)
  have i: "Date_Collected row
            \<in> dates_of (snd (get_trailing_12_month_rates db store_ids from_date to_date)) store"
    by (fastforce simp: rates_inv_def)
  from k h(3) d(1) have s: "store_id r' = store" and e: "d = Date_Collected row"
    by (simp_all add: record_key_def)
  from analyze_date_gaps_missing[OF g] obtain store_dates where
    m: "map_of (snd (get_trailing_12_month_rates db store_ids from_date to_date)) (store_id r')
          = Some store_dates"
       "set missing = {from_date..to_date} - store_dates"
    by blast
  from m(1) s have "dates_of (snd (get_trailing_12_month_rates db store_ids from_date to_date)) store
      = store_dates"
    by (simp add: dates_of_def)
  with i e have "d \<in> store_dates" by simp
  with m(2) d(2) show False by simp
qed

text \<open>
  Claim C1, as the code has it. The combined records are the local records followed by
  the remote records, each restricted to the unit type \<^verbatim>\<open>Unit\<close>; nothing is removed on equal
  keys, so a key occurs as often as in the two sources together, and every record keeps
  its source. A remote record whose date is one of the missing dates of its store, which
  are the only dates requested from the API, has no local record with the same key.
\<close>

theorem all_records_keeps_both_copies:
  "all_records rates info answers
     = filter_unit_type (convert_db_rates_to_records rates info) ''Unit''
       @ filter_unit_type (api_records_of answers) ''Unit''
   \<and> length (filter (\<lambda>r. record_key r = k) (all_records rates info answers))
       = length (filter (\<lambda>r. record_key r = k)
           (filter_unit_type (convert_db_rates_to_records rates info) ''Unit''))
         + length (filter (\<lambda>r. record_key r = k)
           (filter_unit_type (api_records_of answers) ''Unit''))
   \<and> (\<forall>r \<in> set (convert_db_rates_to_records rates info). source r = Database)
   \<and> (\<forall>r \<in> set (api_records_of answers). source r = API)
   \<and> (r \<in> set (convert_db_rates_to_records
               (fst (get_trailing_12_month_rates db store_ids from_date to_date)) info)
      \<and> analyze_date_gaps (map_of (snd (get_trailing_12_month_rates db store_ids from_date to_date)))
              from_date to_date (store_id r') = Some missing
      \<and> date r' = ISO d \<and> d \<in> set missing
      \<longrightarrow> record_key r' \<noteq> record_key r)"
  using gap_dates_have_no_local_record[of r db store_ids from_date to_date info r' missing d]
  by (auto simp: all_records_def Let_def filter_unit_type_append db_records_source
      api_records_of_source)

lemma example_rates_short:
  "get_trailing_12_month_rates example_db [1] 739255 739258
     = ([(1, [local_row])], [(1, {739256})])"
  by (simp add: get_trailing_12_month_rates_def example_db_def select_rates_def local_row_def
      rates_of_def dates_of_def)

lemma example_gaps_short:
  "analyze_date_gaps [1 \<mapsto> {739256}] 739255 739258 1 = Some [739255, 739257, 739258]"
  by code_simp

theorem all_records_keeps_both_copies_witness:
  "db_record example_info 1 local_row
     \<in> set (convert_db_rates_to_records
              (fst (get_trailing_12_month_rates example_db [1] 739255 739258)) example_info)
   \<and> analyze_date_gaps (map_of (snd (get_trailing_12_month_rates example_db [1] 739255 739258)))
        739255 739258 1 = Some [739255, 739257, 739258]
   \<and> record_key (api_record (hd (api_answer zero_online_price))
         (hd (unitType (hd (api_answer zero_online_price)))) zero_online_price)
       = (1, ISO 739257, ''10x10'', ''Unit'')
   \<and> record_key (db_record example_info 1 local_row) = (1, ISO 739256, ''10x10'', ''Unit'')
   \<and> record_key (api_record (hd (api_answer zero_online_price))
         (hd (unitType (hd (api_answer zero_online_price)))) zero_online_price)
       \<noteq> record_key (db_record example_info 1 local_row)
   \<and> map source (all_records [(1, [local_row])] example_info [api_answer zero_online_price])
       = [Database, API]"
proof -
  define r' where "r' = api_record (hd (api_answer zero_online_price))
         (hd (unitType (hd (api_answer zero_online_price)))) zero_online_price"
  have m: "db_record example_info 1 local_row
     \<in> set (convert_db_rates_to_records
              (fst (get_trailing_12_month_rates example_db [1] 739255 739258)) example_info)"
    by (simp add: example_rates_short convert_db_rates_to_records_def)
  have s: "store_id r' = 1" "date r' = ISO 739257"
    by (simp_all add: r'_def api_answer_def zero_online_price_def)
  have g: "analyze_date_gaps (map_of (snd (get_trailing_12_month_rates example_db [1] 739255 739258)))
        739255 739258 (store_id r') = Some [739255, 739257, 739258]"
    by (simp add: example_rates_short s example_gaps_short)
  have k: "record_key r' = (1, ISO 739257, ''10x10'', ''Unit'')"
    "record_key (db_record example_info 1 local_row) = (1, ISO 739256, ''10x10'', ''Unit'')"
    by (simp_all add: r'_def record_key_def api_answer_def zero_online_price_def local_row_def)
  have a: "all_records [(1, [local_row])] example_info [api_answer zero_online_price]
      = [db_record example_info 1 local_row, r']"
    using example_all_records[of zero_online_price] by (simp add: example_rates r'_def)
  have e: "(739257 :: int) \<in> set [739255, 739257, 739258]" by simp
  from all_records_keeps_both_copies[of "[(1, [local_row])]" example_info
      "[api_answer zero_online_price]" "(1, ISO 739256, ''10x10'', ''Unit'')"
      "db_record example_info 1 local_row" example_db "[1]" 739255 739258 r'
      "[739255, 739257, 739258]" 739257] m g s e
  have n: "record_key r' \<noteq> record_key (db_record example_info 1 local_row)"
    by blast
  have t: "analyze_date_gaps (map_of (snd (get_trailing_12_month_rates example_db [1] 739255 739258)))
        739255 739258 1 = Some [739255, 739257, 739258]"
    using g s by simp
  have c: "map source (all_records [(1, [local_row])] example_info [api_answer zero_online_price])
       = [Database, API]"
    by (simp add: a r'_def)
  from m t k n c show ?thesis
    unfolding r'_def by blast
qed

subsection \<open>The two reports\<close>

lemma truthy_zero_as_absent [simp]: "truthy (zero_as_absent p) = truthy p"
  by (auto simp: truthy_def zero_as_absent_def split: option.splits)

lemma the_zero_as_absent: "truthy p \<Longrightarrow> the (zero_as_absent p) = the p"
  by (auto simp: truthy_def zero_as_absent_def split: option.splits)

lemma without_zero_prices_fields [simp]:
  "g_date (without_zero_prices r) = g_date r"
  "g_walk_in_price (without_zero_prices r) = zero_as_absent (g_walk_in_price r)"
  "g_online_price (without_zero_prices r) = zero_as_absent (g_online_price r)"
  by (simp_all add: without_zero_prices_def)

lemma prices_where_walk_in:
  "prices_where g_walk_in_price (\<lambda>r. c (g_date r)) (map without_zero_prices records)
     = prices_where g_walk_in_price (\<lambda>r. c (g_date r)) records"
  by (induction records) (simp_all add: prices_where_def the_zero_as_absent)

lemma prices_where_online:
  "prices_where g_online_price (\<lambda>r. c (g_date r)) (map without_zero_prices records)
     = prices_where g_online_price (\<lambda>r. c (g_date r)) records"
  by (induction records) (simp_all add: prices_where_def the_zero_as_absent)

lemma monthly_loop_eq:
  "monthly_loop records (mw, mo) =
     (\<lambda>m. mw m @ prices_where g_walk_in_price (\<lambda>r. month (g_date r) = m) records,
      \<lambda>m. mo m @ prices_where g_online_price (\<lambda>r. month (g_date r) = m) records)"
proof (induction records arbitrary: mw mo)
  case Nil
  show ?case by (simp add: prices_where_def)
next
  case (Cons r records)
  show ?case
    by (simp add: Cons.IH Let_def) (auto simp: prices_where_def fun_eq_iff)
qed

lemma calc_t_averages_zero:
  "calc_t_averages (map without_zero_prices records) start_date adjustment_pct
     = calc_t_averages records start_date adjustment_pct"
  by (simp add: calc_t_averages_def prices_where_walk_in prices_where_online)

lemma store_month_cells_eq:
  "store_month_cells records adjustment_pct i =
     (let walk_in_avg = mean (prices_where g_walk_in_price (\<lambda>r. month (g_date r) = i) records);
          online_avg = mean (prices_where g_online_price (\<lambda>r. month (g_date r) = i) records);
          online_adj_avg =
            (if truthy online_avg then Some (the online_avg * (1 + adjustment_pct)) else None)
      in (money_cell walk_in_avg, money_cell online_avg, money_cell online_adj_avg))"
  by (simp add: store_month_cells_def monthly_loop_eq)

lemma store_month_cells_zero:
  "store_month_cells (map without_zero_prices records) adjustment_pct i
     = store_month_cells records adjustment_pct i"
  by (simp add: store_month_cells_eq prices_where_walk_in[of "\<lambda>d. month d = i"]
      prices_where_online[of "\<lambda>d. month d = i"])

lemma average_month_cells_zero:
  "average_month_cells (map without_zero_prices records) i = average_month_cells records i"
  by (simp add: average_month_cells_def prices_where_walk_in[of "\<lambda>d. month d = i"]
      prices_where_online[of "\<lambda>d. month d = i"])

lemma pct_diff_of_zero: "pct_diff_of (Some 0) p = None" "pct_diff_of p (Some 0) = None"
  by (simp_all add: pct_diff_of_def truthy_def)

text \<open>
  Claim C10. A price of exactly zero is treated as absent in the output stage: its cell in
  the flat export is empty; a record built from a zero regular or online price has no
  percent difference; and every cell of the grouped report, for a month or a trailing
  period, in a store's row or in the row of the averages, is the same as for the records
  with their zero prices absent, so a zero price never enters an average.
\<close>

theorem zero_price_is_absent:
  "REGULAR_PRICE (export_row (rec\<lparr>walk_in_price := Some 0\<rparr>)) = Blank
   \<and> ONLINE_PRICE (export_row (rec\<lparr>online_price := Some 0\<rparr>)) = Blank
   \<and> pct_difference (db_record info store (row\<lparr>Regular_Rate := Some 0\<rparr>)) = None
   \<and> pct_difference (db_record info store (row\<lparr>Online_Rate := Some 0\<rparr>)) = None
   \<and> pct_difference (api_record api_store unit (p\<lparr>regular := Some 0\<rparr>)) = None
   \<and> pct_difference (api_record api_store unit (p\<lparr>online := Some 0\<rparr>)) = None
   \<and> store_month_cells (map without_zero_prices records) adjustment_pct i
       = store_month_cells records adjustment_pct i
   \<and> store_period_cells (map without_zero_prices records) start_date adjustment_pct
       = store_period_cells records start_date adjustment_pct
   \<and> average_month_cells (map without_zero_prices records) i = average_month_cells records i
   \<and> average_period_cells (map without_zero_prices records) start_date
       = average_period_cells records start_date
   \<and> calc_t_averages (map without_zero_prices records) start_date adjustment_pct
       = calc_t_averages records start_date adjustment_pct"
  by (simp add: export_row_def money_cell_def truthy_def pct_diff_of_zero store_month_cells_zero
      average_month_cells_zero calc_t_averages_zero store_period_cells_def
      average_period_cells_def)

text \<open>
  On the example, the third record with its prices of zero leaves the February average at
  110.
\<close>

theorem zero_price_is_absent_witness:
  "map without_zero_prices example_group = take 2 example_group @
     [\<lparr>g_date = \<lparr>year = 2025, month = 2, day = 11\<rparr>, g_walk_in_price = None,
        g_online_price = None, g_store_name = ''E1'', g_store_id = 1\<rparr>]
   \<and> store_month_cells example_group 0 1 = (Blank, Dollar 100, Dollar 100)
   \<and> store_month_cells example_group 0 2 = (Blank, Dollar 110, Dollar 110)
   \<and> store_period_cells example_group \<lparr>year = 2025, month = 2, day = 1\<rparr> 0
       = (Blank, Dollar 110, Dollar 110)
   \<and> average_month_cells example_group 2 = (Blank, Dollar 110, Blank)"
proof -
  have w: "map without_zero_prices example_group = take 2 example_group @
     [\<lparr>g_date = \<lparr>year = 2025, month = 2, day = 11\<rparr>, g_walk_in_price = None,
        g_online_price = None, g_store_name = ''E1'', g_store_id = 1\<rparr>]"
    by (simp add: example_group_def without_zero_prices_def zero_as_absent_def)
  have c: "store_month_cells (map without_zero_prices example_group) 0 1 = (Blank, Dollar 100, Dollar 100)"
    "store_month_cells (map without_zero_prices example_group) 0 2 = (Blank, Dollar 110, Dollar 110)"
    "store_period_cells (map without_zero_prices example_group) \<lparr>year = 2025, month = 2, day = 1\<rparr> 0
       = (Blank, Dollar 110, Dollar 110)"
    "average_month_cells (map without_zero_prices example_group) 2 = (Blank, Dollar 110, Blank)"
    unfolding w
    by (simp_all add: example_group_def store_month_cells_eq store_period_cells_def
        calc_t_averages_def average_month_cells_def prices_where_def mean_def money_cell_def
        truthy_def datetime_le_def Let_def)
  from zero_price_is_absent[of "db_record example_info 1 local_row" example_info 1 local_row
      "hd (api_answer same_key_price)" "hd (unitType (hd (api_answer same_key_price)))" same_key_price
      example_group 0 1 "\<lparr>year = 2025, month = 2, day = 1\<rparr>"]
    zero_price_is_absent[of "db_record example_info 1 local_row" example_info 1 local_row
      "hd (api_answer same_key_price)" "hd (unitType (hd (api_answer same_key_price)))" same_key_price
      example_group 0 2 "\<lparr>year = 2025, month = 2, day = 1\<rparr>"] w c
  show ?thesis by simp
qed

end
